theory Spec2Isabelle
  imports Complex_Main
begin

section \<open>Python values used by the script\<close>

text \<open>
  The script \<^verbatim>\<open>voxel_verification_sample.py\<close> works on Python \<^verbatim>\<open>str\<close> values, whose
  elements are Unicode code points, so a string is a list of code points here. The
  literals of the script that matter are ASCII and are written \<open>ascii ''...''\<close>.
  The source's function names start with an underscore, which an Isabelle name cannot:
  \<^verbatim>\<open>_verify_answer_format\<close> is \<open>verify_answer_format\<close> here, and so on.
\<close>

type_synonym codepoint = nat
type_synonym str = "codepoint list"

definition ascii :: "string \<Rightarrow> str" where
  "ascii s = map of_char s"

text \<open>
  \<^verbatim>\<open>str.strip()\<close> removes leading and trailing whitespace; for CPython 3 the
  whitespace code points are the ones listed in \<open>isspace\<close>
  (tab to carriage return, the separators 0x1C to 0x1F, space, NEL, no-break space,
  and the Unicode space separators).
\<close>

definition isspace :: "codepoint \<Rightarrow> bool" where
  "isspace c =
     ((9 \<le> c \<and> c \<le> 13) \<or> (28 \<le> c \<and> c \<le> 32) \<or> c = 133 \<or> c = 160 \<or> c = 5760 \<or>
      (8192 \<le> c \<and> c \<le> 8202) \<or> c = 8232 \<or> c = 8233 \<or> c = 8239 \<or> c = 8287 \<or>
      c = 12288)"

definition strip :: "str \<Rightarrow> str" where
  "strip s = rev (dropWhile isspace (rev (dropWhile isspace s)))"

text \<open>\<^verbatim>\<open>sub in s\<close> on strings: \<open>sub\<close> occurs in \<open>s\<close> at some position.\<close>

fun startswith :: "str \<Rightarrow> str \<Rightarrow> bool" where
  "startswith s [] = True"
| "startswith [] (p # ps) = False"
| "startswith (c # cs) (p # ps) = (c = p \<and> startswith cs ps)"

fun contains :: "str \<Rightarrow> str \<Rightarrow> bool" where
  "contains [] sub = (sub = [])"
| "contains (c # cs) sub = (startswith (c # cs) sub \<or> contains cs sub)"

text \<open>
  Truthiness of an \<^verbatim>\<open>Optional[str]\<close>: \<^verbatim>\<open>None\<close> and the empty string are false.
\<close>

fun truthy :: "str option \<Rightarrow> bool" where
  "truthy None = False"
| "truthy (Some s) = (s \<noteq> [])"

text \<open>
  The value \<^verbatim>\<open>response.json()\<close> returns. \<open>JNull\<close> is Python's \<^verbatim>\<open>None\<close>. Of a
  number the script observes only whether it is zero. An object is the list of its
  items; \<^verbatim>\<open>dict.get\<close> is \<open>map_of\<close>.
\<close>

datatype json =
    JNull
  | JBool bool
  | JNumber real
  | JString str
  | JArray "json list"
  | JObject "(str \<times> json) list"

fun json_truthy :: "json \<Rightarrow> bool" where
  "json_truthy JNull = False"
| "json_truthy (JBool b) = b"
| "json_truthy (JNumber x) = (x \<noteq> 0)"
| "json_truthy (JString s) = (s \<noteq> [])"
| "json_truthy (JArray xs) = (xs \<noteq> [])"
| "json_truthy (JObject kvs) = (kvs \<noteq> [])"

text \<open>
  The exceptions the decoding block of \<^verbatim>\<open>_get_file_content\<close> can meet:
  an \<^verbatim>\<open>AttributeError\<close> (the object and the attribute it lacks), or an error of
  \<^verbatim>\<open>base64.b64decode\<close> or \<^verbatim>\<open>bytes.decode\<close> (its text).
\<close>

datatype py_error =
    AttributeError json str
  | CodecError str

subsection \<open>The part of \<^verbatim>\<open>re\<close> the configured pattern uses\<close>

text \<open>
  The configured pattern \<^verbatim>\<open>^\d{4}-\d{2}-\d{2}$\<close> is a sequence of anchors, single
  characters and characters repeated a fixed number of times. \<open>regex\<close> is the parsed
  form of such a pattern. \<^verbatim>\<open>re.match\<close> matches at the start of the string and need
  not reach its end; \<^verbatim>\<open>^\<close> holds at the start only; \<^verbatim>\<open>$\<close> holds at the end and
  just before a newline that ends the string; \<^verbatim>\<open>\d\<close> on a \<^verbatim>\<open>str\<close> is any Unicode
  decimal digit.
\<close>

datatype re_atom = Digit | Lit codepoint

datatype re_item = Caret | Dollar | One re_atom | Times re_atom nat

type_synonym regex = "re_item list"

text \<open>
  What the script takes from the Python library and does not define itself:
  the decimal digits of the interpreter's Unicode tables beyond ASCII (the ASCII
  digits are decimal digits in every version), and
  \<^verbatim>\<open>base64.b64decode(text).decode(encoding)\<close>, which returns the decoded text or
  raises (\<open>Inl\<close> the exception's text).
\<close>

record pylib =
  unicode_decimal :: "codepoint \<Rightarrow> bool"
  b64decode_decode :: "str \<Rightarrow> str \<Rightarrow> str + str"

definition isdecimal :: "pylib \<Rightarrow> codepoint \<Rightarrow> bool" where
  "isdecimal lib c = ((48 \<le> c \<and> c \<le> 57) \<or> (128 \<le> c \<and> unicode_decimal lib c))"

fun match_atom :: "pylib \<Rightarrow> re_atom \<Rightarrow> codepoint \<Rightarrow> bool" where
  "match_atom lib Digit c = isdecimal lib c"
| "match_atom lib (Lit l) c = (c = l)"

fun take_atoms :: "pylib \<Rightarrow> re_atom \<Rightarrow> nat \<Rightarrow> str \<Rightarrow> str option" where
  "take_atoms lib a 0 s = Some s"
| "take_atoms lib a (Suc n) [] = None"
| "take_atoms lib a (Suc n) (c # cs) =
     (if match_atom lib a c then take_atoms lib a n cs else None)"

fun match_here :: "pylib \<Rightarrow> regex \<Rightarrow> bool \<Rightarrow> str \<Rightarrow> bool" where
  "match_here lib [] at_start s = True"
| "match_here lib (Caret # p) at_start s = (at_start \<and> match_here lib p at_start s)"
| "match_here lib (Dollar # p) at_start s =
     ((s = [] \<or> s = [10]) \<and> match_here lib p at_start s)"
| "match_here lib (One a # p) at_start s =
     (case s of [] \<Rightarrow> False | c # cs \<Rightarrow> match_atom lib a c \<and> match_here lib p False cs)"
| "match_here lib (Times a n # p) at_start s =
     (case take_atoms lib a n s of
        None \<Rightarrow> False
      | Some s' \<Rightarrow> match_here lib p (at_start \<and> n = 0) s')"

definition re_match :: "pylib \<Rightarrow> regex \<Rightarrow> str \<Rightarrow> bool" where
  "re_match lib p s = match_here lib p True s"

section \<open>Configuration\<close>

text \<open>
  \<^verbatim>\<open>CONFIG\<close> is a dictionary of dictionaries; each of its sections is a record here.
  The files' sections share the keys \<^verbatim>\<open>path\<close>, \<^verbatim>\<open>must_exist\<close> and \<^verbatim>\<open>encoding\<close>,
  which carry the file's name as a prefix. The checks read the configuration from the
  global \<^verbatim>\<open>CONFIG\<close>; every function takes it as its first argument here, so that a
  statement can speak of other flag settings than the ones the script ships with.
  The flag \<^verbatim>\<open>verify_answer_value\<close> is \<open>verify_answer_value_flag\<close>, since the function
  \<^verbatim>\<open>_verify_answer_value\<close> has the name without the underscore.
\<close>

record env_config =
  github_token_var :: str
  github_org_var :: str
  env_file :: str

record repo_config =
  repo_name :: str
  target_branch :: str
  api_version :: str
  timeout :: nat

record content_schema =
  format :: str
  pattern :: regex
  expected_value :: str

record answer_file_config =
  answer_path :: str
  answer_must_exist :: bool
  answer_encoding :: str
  content_schema :: content_schema

record content_checks =
  required_section :: str
  required_entries :: "str list"
  check_entries :: bool

record reference_file_config =
  reference_path :: str
  reference_must_exist :: bool
  reference_encoding :: str
  content_checks :: content_checks

record files_to_verify =
  answer_file :: answer_file_config
  reference_file :: reference_file_config

record verification_flow =
  check_answer_file_existence :: bool
  check_answer_format :: bool
  verify_answer_value_flag :: bool
  check_reference_file :: bool
  check_section_existence :: bool
  check_required_entries :: bool

record config =
  ENV_CONFIG :: env_config
  REPO_CONFIG :: repo_config
  FILES_TO_VERIFY :: files_to_verify
  VERIFICATION_FLOW :: verification_flow

text \<open>The pattern \<^verbatim>\<open>^\d{4}-\d{2}-\d{2}$\<close>; 45 is the hyphen.\<close>

definition date_pattern :: regex where
  "date_pattern =
     [Caret, Times Digit 4, One (Lit 45), Times Digit 2, One (Lit 45), Times Digit 2, Dollar]"

definition CONFIG :: config where
  "CONFIG =
     \<lparr>ENV_CONFIG =
        \<lparr>github_token_var = ascii ''MCP_GITHUB_TOKEN'',
         github_org_var = ascii ''GITHUB_EVAL_ORG'',
         env_file = ascii ''.mcp_env''\<rparr>,
      REPO_CONFIG =
        \<lparr>repo_name = ascii ''voxel-engine-docs'',
         target_branch = ascii ''main'',
         api_version = ascii ''v3'',
         timeout = 10\<rparr>,
      FILES_TO_VERIFY =
        \<lparr>answer_file =
           \<lparr>answer_path = ascii ''ANSWER.md'',
            answer_must_exist = True,
            answer_encoding = ascii ''utf-8'',
            content_schema =
              \<lparr>format = ascii ''date'',
               pattern = date_pattern,
               expected_value = ascii ''2023-11-15''\<rparr>\<rparr>,
         reference_file =
           \<lparr>reference_path = ascii ''README.md'',
            reference_must_exist = True,
            reference_encoding = ascii ''utf-8'',
            content_checks =
              \<lparr>required_section = ascii ''## Voxel Engine Implementation'',
               required_entries =
                 [ascii ''C++ Voxel Engine Fundamentals'',
                  ascii ''Vulkan-based Voxel Rendering''],
               check_entries = True\<rparr>\<rparr>\<rparr>,
      VERIFICATION_FLOW =
        \<lparr>check_answer_file_existence = True,
         check_answer_format = True,
         verify_answer_value_flag = True,
         check_reference_file = True,
         check_section_existence = True,
         check_required_entries = True\<rparr>\<rparr>"

section \<open>Output, requests and the outside world\<close>

text \<open>
  Every \<^verbatim>\<open>print\<close> of the script is one constructor of \<open>message\<close>, carrying the values
  the f-string interpolates (the fixed Chinese text is not spelled out). The source line
  of each:
  \<open>MsgEnvVarMissing\<close> 91 and 93 (variable, env file); \<open>MsgApiNotFound\<close> 126;
  \<open>MsgApiFailed\<close> 129; \<open>MsgApiException\<close> 133; \<open>MsgFileNotInBranch\<close> 153
  (branch, path); \<open>MsgDecodeFailed\<close> 161; \<open>MsgAnswerUnreadable\<close> 172;
  \<open>MsgAnswerExists\<close> 174; \<open>MsgFormatMismatch\<close> 183; \<open>MsgFormatOk\<close> 185;
  \<open>MsgValueMismatch\<close> 194 (expected, actual); \<open>MsgValueOk\<close> 196;
  \<open>MsgReferenceUnreadable\<close> 203; \<open>MsgReferenceExists\<close> 207; \<open>MsgSectionMissing\<close> 216
  (path, section); \<open>MsgSectionFound\<close> 218; \<open>MsgEntryMissing\<close> 230 (path, entry);
  \<open>MsgAllEntriesPresent\<close> 234; \<open>MsgEntriesIncomplete\<close> 236; \<open>MsgBanner\<close> 246;
  \<open>MsgRule\<close> 247 and 301; \<open>MsgStep1\<close> 250; \<open>MsgEnvIncomplete\<close> 253;
  \<open>MsgEnvLoaded\<close> 257 (organisation, repository); \<open>MsgStep2\<close> 260;
  \<open>MsgAnswerFailed\<close> 273; \<open>MsgStep3\<close> 277; \<open>MsgReferenceFailed\<close> 290;
  \<open>MsgBlankRule\<close> 294; \<open>MsgAllPassed\<close> 295; \<open>MsgSummary\<close> 296;
  \<open>MsgSummaryRepo\<close> 297; \<open>MsgSummaryBranch\<close> 298; \<open>MsgSummaryAnswer\<close> 299
  (path, expected); \<open>MsgSummaryReference\<close> 300 (path, section).
  A line of output is a message with the stream it goes to
  (\<^verbatim>\<open>file=sys.stderr\<close> or the default standard output).
\<close>

datatype message =
    MsgEnvVarMissing str str
  | MsgApiNotFound str
  | MsgApiFailed str int
  | MsgApiException str str
  | MsgFileNotInBranch str str
  | MsgDecodeFailed str py_error
  | MsgAnswerUnreadable str
  | MsgAnswerExists str
  | MsgFormatMismatch regex
  | MsgFormatOk regex
  | MsgValueMismatch str str
  | MsgValueOk str
  | MsgReferenceUnreadable str
  | MsgReferenceExists str
  | MsgSectionMissing str str
  | MsgSectionFound str
  | MsgEntryMissing str str
  | MsgAllEntriesPresent nat
  | MsgEntriesIncomplete
  | MsgBanner
  | MsgRule
  | MsgStep1
  | MsgEnvIncomplete
  | MsgEnvLoaded str str
  | MsgStep2
  | MsgAnswerFailed
  | MsgStep3
  | MsgReferenceFailed
  | MsgBlankRule
  | MsgAllPassed
  | MsgSummary
  | MsgSummaryRepo str str
  | MsgSummaryBranch str
  | MsgSummaryAnswer str str
  | MsgSummaryReference str str

datatype stream = Stdout | Stderr

type_synonym line = "stream \<times> message"

text \<open>One call of \<^verbatim>\<open>requests.get\<close>: the URL, the headers and the timeout.\<close>

record request =
  url :: str
  headers :: "(str \<times> str) list"
  timeout_seconds :: nat

text \<open>
  What a call of \<^verbatim>\<open>requests.get\<close> followed by \<^verbatim>\<open>response.json()\<close> can do:
  raise (the exception's text), or answer with a status code and a body, whose parsing
  as JSON raises (\<open>Inl\<close> the exception's text) or returns a value.
\<close>

datatype http_outcome =
    Raises str
  | Responds int "str + json"

text \<open>
  The world one run sees: the process environment, the contents of the dotenv files by
  path, and the network, which answers the \<open>k\<close>-th request of the run (counted from 0).
\<close>

record world =
  os_environ :: "str \<Rightarrow> str option"
  dotenv_values :: "str \<Rightarrow> str \<Rightarrow> str option"
  http_get :: "nat \<Rightarrow> request \<Rightarrow> http_outcome"

text \<open>The effects of a run so far: the lines printed and the requests issued, in order.\<close>

record io =
  printed :: "line list"
  issued :: "request list"

definition io0 :: io where
  "io0 = \<lparr>printed = [], issued = []\<rparr>"

definition print_out :: "message \<Rightarrow> io \<Rightarrow> io" where
  "print_out m s = s\<lparr>printed := printed s @ [(Stdout, m)]\<rparr>"

definition print_err :: "message \<Rightarrow> io \<Rightarrow> io" where
  "print_err m s = s\<lparr>printed := printed s @ [(Stderr, m)]\<rparr>"

section \<open>Tool functions (lines 81 to 162)\<close>

text \<open>
  \<^verbatim>\<open>load_dotenv(path)\<close> adds the file's variables to the process environment and
  keeps a variable that is already set; \<^verbatim>\<open>os.environ.get\<close> then reads the result.
\<close>

definition environ_get :: "world \<Rightarrow> str \<Rightarrow> str \<Rightarrow> str option" where
  "environ_get w dotenv_path var =
     (case os_environ w var of
        Some v \<Rightarrow> Some v
      | None \<Rightarrow> dotenv_values w dotenv_path var)"

definition load_environment :: "config \<Rightarrow> world \<Rightarrow> io \<Rightarrow> (str option \<times> str option) \<times> io" where
  "load_environment cfg w s =
     (let env = ENV_CONFIG cfg;
          github_token = environ_get w (env_file env) (github_token_var env);
          github_org = environ_get w (env_file env) (github_org_var env);
          s1 = (if \<not> truthy github_token
                then print_err (MsgEnvVarMissing (github_token_var env) (env_file env)) s
                else s);
          s2 = (if \<not> truthy github_org
                then print_err (MsgEnvVarMissing (github_org_var env) (env_file env)) s1
                else s1)
      in ((github_token, github_org), s2))"

definition build_headers :: "config \<Rightarrow> str \<Rightarrow> (str \<times> str) list" where
  "build_headers cfg github_token =
     [(ascii ''Authorization'', ascii ''Bearer '' @ github_token),
      (ascii ''Accept'',
         ascii ''application/vnd.github.'' @ api_version (REPO_CONFIG cfg) @ ascii ''+json''),
      (ascii ''User-Agent'', ascii ''voxel-engine-verifier'')]"

text \<open>
  \<^verbatim>\<open>_call_github_api\<close> returns \<^verbatim>\<open>(success, data)\<close>; \<^verbatim>\<open>None\<close> as data is \<open>JNull\<close>.
  The whole request, \<^verbatim>\<open>response.json()\<close> included, is inside the \<^verbatim>\<open>try\<close>.
  \<open>api_request\<close> is what the call of \<^verbatim>\<open>requests.get\<close> in lines 117 to 121 is given.
\<close>

definition api_request :: "config \<Rightarrow> str \<Rightarrow> (str \<times> str) list \<Rightarrow> str \<Rightarrow> request" where
  "api_request cfg endpoint hdrs org =
     \<lparr>url = ascii ''https://api.github.com/repos/'' @ org @ ascii ''/'' @
              repo_name (REPO_CONFIG cfg) @ ascii ''/'' @ endpoint,
      headers = hdrs,
      timeout_seconds = timeout (REPO_CONFIG cfg)\<rparr>"

definition call_github_api ::
  "config \<Rightarrow> world \<Rightarrow> str \<Rightarrow> (str \<times> str) list \<Rightarrow> str \<Rightarrow> io \<Rightarrow> (bool \<times> json) \<times> io" where
  "call_github_api cfg w endpoint hdrs org s =
     (let req = api_request cfg endpoint hdrs org;
          s1 = s\<lparr>issued := issued s @ [req]\<rparr>
      in case http_get w (length (issued s)) req of
           Raises e \<Rightarrow> ((False, JNull), print_err (MsgApiException endpoint e) s1)
         | Responds status_code body \<Rightarrow>
             if status_code = 200 then
               (case body of
                  Inr data \<Rightarrow> ((True, data), s1)
                | Inl e \<Rightarrow> ((False, JNull), print_err (MsgApiException endpoint e) s1))
             else if status_code = 404 then
               ((False, JNull), print_err (MsgApiNotFound endpoint) s1)
             else
               ((False, JNull), print_err (MsgApiFailed endpoint status_code) s1))"

text \<open>
  The body of the second \<^verbatim>\<open>try\<close> of \<^verbatim>\<open>_get_file_content\<close> (lines 158 and 159):
  \<^verbatim>\<open>file_data.get("content", "")\<close> needs a dictionary, \<^verbatim>\<open>.replace("\n", "")\<close> needs a
  string, and the decoding is the library's. \<open>Inl\<close> is the exception raised. The
  encoding is the answer file's, whichever file is fetched.
\<close>

definition dict_get :: "json \<Rightarrow> str \<Rightarrow> json \<Rightarrow> py_error + json" where
  "dict_get d k dflt =
     (case d of
        JObject kvs \<Rightarrow> (case map_of kvs k of Some v \<Rightarrow> Inr v | None \<Rightarrow> Inr dflt)
      | _ \<Rightarrow> Inl (AttributeError d (ascii ''get'')))"

definition remove_newlines :: "json \<Rightarrow> py_error + str" where
  "remove_newlines v =
     (case v of
        JString t \<Rightarrow> Inr (filter (\<lambda>c. c \<noteq> 10) t)
      | _ \<Rightarrow> Inl (AttributeError v (ascii ''replace'')))"

definition decode_content :: "config \<Rightarrow> pylib \<Rightarrow> json \<Rightarrow> py_error + str" where
  "decode_content cfg lib file_data =
     (case dict_get file_data (ascii ''content'') (JString []) of
        Inl e \<Rightarrow> Inl e
      | Inr v \<Rightarrow>
          (case remove_newlines v of
             Inl e \<Rightarrow> Inl e
           | Inr base64_content \<Rightarrow>
               (case b64decode_decode lib
                       (answer_encoding (answer_file (FILES_TO_VERIFY cfg))) base64_content of
                  Inl e \<Rightarrow> Inl (CodecError e)
                | Inr t \<Rightarrow> Inr t)))"

text \<open>
  Line 145, \<^verbatim>\<open>ref or CONFIG["REPO_CONFIG"]["target_branch"]\<close>, and the endpoint of
  line 147.
\<close>

definition branch_of :: "config \<Rightarrow> str option \<Rightarrow> str" where
  "branch_of cfg ref =
     (case ref of
        Some r \<Rightarrow> if r \<noteq> [] then r else target_branch (REPO_CONFIG cfg)
      | None \<Rightarrow> target_branch (REPO_CONFIG cfg))"

definition contents_endpoint :: "str \<Rightarrow> str \<Rightarrow> str" where
  "contents_endpoint file_path branch = ascii ''contents/'' @ file_path @ ascii ''?ref='' @ branch"

definition get_file_content ::
  "config \<Rightarrow> pylib \<Rightarrow> world \<Rightarrow> str \<Rightarrow> (str \<times> str) list \<Rightarrow> str \<Rightarrow> str option \<Rightarrow> io
     \<Rightarrow> str option \<times> io" where
  "get_file_content cfg lib w file_path hdrs org ref s =
     (let branch = branch_of cfg ref;
          ((success, file_data), s1) =
             call_github_api cfg w (contents_endpoint file_path branch) hdrs org s
      in if \<not> success \<or> \<not> json_truthy file_data then
           (None, print_err (MsgFileNotInBranch branch file_path) s1)
         else
           (case decode_content cfg lib file_data of
              Inr t \<Rightarrow> (Some t, s1)
            | Inl e \<Rightarrow> (None, print_err (MsgDecodeFailed file_path e) s1)))"

section \<open>The six checks (lines 168 to 238)\<close>

definition verify_answer_file_existence :: "config \<Rightarrow> str option \<Rightarrow> io \<Rightarrow> bool \<times> io" where
  "verify_answer_file_existence cfg content s =
     (if check_answer_file_existence (VERIFICATION_FLOW cfg) then
        (if \<not> truthy content then
           (False, print_err (MsgAnswerUnreadable (answer_path (answer_file (FILES_TO_VERIFY cfg)))) s)
         else
           (True, print_out (MsgAnswerExists (answer_path (answer_file (FILES_TO_VERIFY cfg)))) s))
      else (True, s))"

definition verify_answer_format :: "config \<Rightarrow> pylib \<Rightarrow> str \<Rightarrow> io \<Rightarrow> bool \<times> io" where
  "verify_answer_format cfg lib content s =
     (if check_answer_format (VERIFICATION_FLOW cfg) then
        (let pat = pattern (content_schema (answer_file (FILES_TO_VERIFY cfg)))
         in if \<not> re_match lib pat (strip content) then
              (False, print_err (MsgFormatMismatch pat) s)
            else (True, print_out (MsgFormatOk pat) s))
      else (True, s))"

definition verify_answer_value :: "config \<Rightarrow> str \<Rightarrow> io \<Rightarrow> bool \<times> io" where
  "verify_answer_value cfg content s =
     (if verify_answer_value_flag (VERIFICATION_FLOW cfg) then
        (let expected = expected_value (content_schema (answer_file (FILES_TO_VERIFY cfg)))
         in if strip content \<noteq> expected then
              (False, print_err (MsgValueMismatch expected (strip content)) s)
            else (True, print_out (MsgValueOk expected) s))
      else (True, s))"

definition verify_reference_file :: "config \<Rightarrow> str option \<Rightarrow> io \<Rightarrow> bool \<times> io" where
  "verify_reference_file cfg content s =
     (if check_reference_file (VERIFICATION_FLOW cfg) \<and> \<not> truthy content then
        (False,
         print_err (MsgReferenceUnreadable (reference_path (reference_file (FILES_TO_VERIFY cfg)))) s)
      else if check_reference_file (VERIFICATION_FLOW cfg) then
        (True,
         print_out (MsgReferenceExists (reference_path (reference_file (FILES_TO_VERIFY cfg)))) s)
      else (True, s))"

definition verify_required_section :: "config \<Rightarrow> str \<Rightarrow> io \<Rightarrow> bool \<times> io" where
  "verify_required_section cfg content s =
     (if check_section_existence (VERIFICATION_FLOW cfg) then
        (let section = required_section (content_checks (reference_file (FILES_TO_VERIFY cfg)))
         in if \<not> contains content section then
              (False,
               print_err
                 (MsgSectionMissing (reference_path (reference_file (FILES_TO_VERIFY cfg))) section) s)
            else (True, print_out (MsgSectionFound section) s))
      else (True, s))"

text \<open>
  The \<^verbatim>\<open>for\<close> loop of \<^verbatim>\<open>_verify_required_entries\<close> (lines 228 to 231), with the
  variable \<^verbatim>\<open>all_present\<close> and the output as its state.
\<close>

fun entries_loop :: "str \<Rightarrow> str \<Rightarrow> str list \<Rightarrow> bool \<Rightarrow> io \<Rightarrow> bool \<times> io" where
  "entries_loop path content [] all_present s = (all_present, s)"
| "entries_loop path content (entry # entries) all_present s =
     (if \<not> contains content entry then
        entries_loop path content entries False (print_err (MsgEntryMissing path entry) s)
      else entries_loop path content entries all_present s)"

definition verify_required_entries :: "config \<Rightarrow> str \<Rightarrow> io \<Rightarrow> bool \<times> io" where
  "verify_required_entries cfg content s =
     (if check_required_entries (VERIFICATION_FLOW cfg) \<and>
         check_entries (content_checks (reference_file (FILES_TO_VERIFY cfg))) then
        (let entries = required_entries (content_checks (reference_file (FILES_TO_VERIFY cfg)));
             (all_present, s1) =
                entries_loop (reference_path (reference_file (FILES_TO_VERIFY cfg)))
                  content entries True s
         in if all_present then (True, print_out (MsgAllEntriesPresent (length entries)) s1)
            else (False, print_err MsgEntriesIncomplete s1))
      else (True, s))"

section \<open>The main flow (lines 244 to 310)\<close>

text \<open>
  \<^verbatim>\<open>check(content) if content else False\<close>: the check runs only on content that is
  present and not empty.
\<close>

fun guarded :: "(str \<Rightarrow> io \<Rightarrow> bool \<times> io) \<Rightarrow> str option \<Rightarrow> io \<Rightarrow> bool \<times> io" where
  "guarded check None s = (False, s)"
| "guarded check (Some c) s = (if c \<noteq> [] then check c s else (False, s))"

text \<open>
  The argument of \<^verbatim>\<open>all([...])\<close> in lines 268 to 272 and in lines 285 to 289: Python
  builds the whole list first, so the three elements are evaluated in order, whatever
  the earlier ones return, and \<^verbatim>\<open>all\<close> is their conjunction.
\<close>

definition answer_checks :: "config \<Rightarrow> pylib \<Rightarrow> str option \<Rightarrow> io \<Rightarrow> bool \<times> io" where
  "answer_checks cfg lib answer_content s =
     (let (r1, s1) = verify_answer_file_existence cfg answer_content s;
          (r2, s2) = guarded (verify_answer_format cfg lib) answer_content s1;
          (r3, s3) = guarded (verify_answer_value cfg) answer_content s2
      in (r1 \<and> r2 \<and> r3, s3))"

definition reference_checks :: "config \<Rightarrow> str option \<Rightarrow> io \<Rightarrow> bool \<times> io" where
  "reference_checks cfg reference_content s =
     (let (r1, s1) = verify_reference_file cfg reference_content s;
          (r2, s2) = guarded (verify_required_section cfg) reference_content s1;
          (r3, s3) = guarded (verify_required_entries cfg) reference_content s2
      in (r1 \<and> r2 \<and> r3, s3))"

text \<open>The summary block of lines 294 to 301.\<close>

definition print_summary :: "config \<Rightarrow> str \<Rightarrow> io \<Rightarrow> io" where
  "print_summary cfg github_org s =
     foldl (\<lambda>s' m. print_out m s') s
       [MsgBlankRule,
        MsgAllPassed,
        MsgSummary,
        MsgSummaryRepo github_org (repo_name (REPO_CONFIG cfg)),
        MsgSummaryBranch (target_branch (REPO_CONFIG cfg)),
        MsgSummaryAnswer (answer_path (answer_file (FILES_TO_VERIFY cfg)))
          (expected_value (content_schema (answer_file (FILES_TO_VERIFY cfg)))),
        MsgSummaryReference (reference_path (reference_file (FILES_TO_VERIFY cfg)))
          (required_section (content_checks (reference_file (FILES_TO_VERIFY cfg)))),
        MsgRule]"

text \<open>
  Steps 2 and 3 of \<^verbatim>\<open>run_verification\<close> (lines 256 to 302), which run once both
  credentials are there.
\<close>

definition verify_files :: "config \<Rightarrow> pylib \<Rightarrow> world \<Rightarrow> str \<Rightarrow> str \<Rightarrow> io \<Rightarrow> bool \<times> io" where
  "verify_files cfg lib w github_token github_org s =
     (let hdrs = build_headers cfg github_token;
          s1 = print_out (MsgEnvLoaded github_org (repo_name (REPO_CONFIG cfg))) s;
          s2 = print_out MsgStep2 s1;
          (answer_content, s3) =
             get_file_content cfg lib w (answer_path (answer_file (FILES_TO_VERIFY cfg)))
               hdrs github_org None s2;
          (answer_ok, s4) = answer_checks cfg lib answer_content s3
      in if \<not> answer_ok then (False, print_err MsgAnswerFailed s4)
         else
           (let s5 = print_out MsgStep3 s4;
                (reference_content, s6) =
                   get_file_content cfg lib w
                     (reference_path (reference_file (FILES_TO_VERIFY cfg))) hdrs github_org None s5;
                (reference_ok, s7) = reference_checks cfg reference_content s6
            in if \<not> reference_ok then (False, print_err MsgReferenceFailed s7)
               else (True, print_summary cfg github_org s7)))"

text \<open>
  \<^verbatim>\<open>run_verification\<close>. After the test of line 252 both credentials are strings; the
  last case of the \<open>case\<close> is excluded by that test.
\<close>

definition run_verification :: "config \<Rightarrow> pylib \<Rightarrow> world \<Rightarrow> io \<Rightarrow> bool \<times> io" where
  "run_verification cfg lib w s =
     (let s1 = print_out MsgBanner s;
          s2 = print_out MsgRule s1;
          s3 = print_out MsgStep1 s2;
          ((github_token, github_org), s4) = load_environment cfg w s3
      in if \<not> truthy github_token \<or> \<not> truthy github_org then
           (False, print_err MsgEnvIncomplete s4)
         else
           (case (github_token, github_org) of
              (Some token, Some org) \<Rightarrow> verify_files cfg lib w token org s4
            | _ \<Rightarrow> (False, print_err MsgEnvIncomplete s4)))"

text \<open>
  The entry point: \<^verbatim>\<open>sys.exit(0 if verification_result else 1)\<close>. The result is the
  exit status with the effects of the run.
\<close>

definition main :: "pylib \<Rightarrow> world \<Rightarrow> int \<times> io" where
  "main lib w =
     (let (verification_result, s) = run_verification CONFIG lib w io0
      in (if verification_result then 0 else 1, s))"

section \<open>What the specification's words mean\<close>

text \<open>
  The specification speaks of a string being a substring of another and of a string
  matching the date pattern. These two definitions say it in plain terms, without the
  functions above: \<open>is_substring\<close> is "occurs somewhere in", and \<open>spec_date_shaped\<close> is
  "four decimal digits, a hyphen, two decimal digits, a hyphen, two decimal digits, and
  nothing else". The theorems below relate them to what the code computes.
\<close>

definition is_substring :: "str \<Rightarrow> str \<Rightarrow> bool" where
  "is_substring sub s = (\<exists>before after. s = before @ sub @ after)"

definition spec_date_shaped :: "pylib \<Rightarrow> str \<Rightarrow> bool" where
  "spec_date_shaped lib t =
     (length t = 10 \<and> list_all (isdecimal lib) (take 4 t) \<and> t ! 4 = 45 \<and>
      list_all (isdecimal lib) (take 2 (drop 5 t)) \<and> t ! 7 = 45 \<and>
      list_all (isdecimal lib) (drop 8 t))"

text \<open>The least number of characters a pattern item consumes.\<close>

fun item_width :: "re_item \<Rightarrow> nat" where
  "item_width Caret = 0"
| "item_width Dollar = 0"
| "item_width (One a) = 1"
| "item_width (Times a n) = n"

section \<open>Sample inputs\<close>

text \<open>
  Concrete inputs on which the theorems are instantiated. \<open>sample_lib\<close> knows the
  Arabic-Indic digits as decimal digits beyond ASCII. Its decoder follows the library on
  the texts of \<open>sample_decodings\<close>, each listed with what
  \<^verbatim>\<open>base64.b64decode(text).decode("utf-8")\<close> returns or raises in CPython: the empty
  text, two dates, two README files, and \<^verbatim>\<open>abc\<close>, whose three characters are no whole
  group (\<^verbatim>\<open>Incorrect padding\<close>). As the library does, it refuses a text with a
  character beyond ASCII and discards the characters that are neither of the Base64
  alphabet nor the padding sign before it decodes. It is a table and no decoder: on a
  text whose Base64 characters are no entry of the table, and for every encoding but
  \<^verbatim>\<open>utf-8\<close>, it raises, and no theorem is instantiated there. \<open>mock_world\<close> is a
  world with the
  token in the process environment, the organisation in the file \<^verbatim>\<open>.mcp_env\<close>, and
  the given answers to the first and the second request. \<open>file_response\<close> is the answer of
  the contents API for a file with the given Base64 content.
\<close>

definition readme_full :: str where
  "readme_full =
     ascii ''## Voxel Engine Implementation'' @ [10] @
     ascii ''- C++ Voxel Engine Fundamentals'' @ [10] @
     ascii ''- Vulkan-based Voxel Rendering'' @ [10]"

definition readme_short :: str where
  "readme_short =
     ascii ''## Voxel Engine Implementation'' @ [10] @
     ascii ''- C++ Voxel Engine Fundamentals'' @ [10]"

definition readme_full_b64 :: str where
  "readme_full_b64 =
     ascii ''IyMgVm94ZWwgRW5naW5lIEltcGxlbWVudGF0aW9uCi0gQysrIFZveGVsIEVu'' @ [10] @
     ascii ''Z2luZSBGdW5kYW1lbnRhbHMKLSBWdWxrYW4tYmFzZWQgVm94ZWwgUmVuZGVy'' @ [10] @
     ascii ''aW5nCg=='' @ [10]"

definition readme_short_b64 :: str where
  "readme_short_b64 =
     ascii ''IyMgVm94ZWwgRW5naW5lIEltcGxlbWVudGF0aW9uCi0gQysrIFZveGVsIEVu'' @ [10] @
     ascii ''Z2luZSBGdW5kYW1lbnRhbHMK'' @ [10]"

definition sample_decodings :: "(str \<times> (str + str)) list" where
  "sample_decodings =
     [([], Inr []),
      (ascii ''MjAyMy0xMS0xNQ=='', Inr (ascii ''2023-11-15'')),
      (ascii ''MjAyMy0xMS0xNg=='', Inr (ascii ''2023-11-16'')),
      (filter (\<lambda>c. c \<noteq> 10) readme_full_b64, Inr readme_full),
      (filter (\<lambda>c. c \<noteq> 10) readme_short_b64, Inr readme_short),
      (ascii ''abc'', Inl (ascii ''Incorrect padding''))]"

text \<open>The letters, the digits, \<^verbatim>\<open>+\<close>, \<^verbatim>\<open>/\<close> and the padding sign \<^verbatim>\<open>=\<close>.\<close>

definition is_base64_char :: "codepoint \<Rightarrow> bool" where
  "is_base64_char c =
     ((65 \<le> c \<and> c \<le> 90) \<or> (97 \<le> c \<and> c \<le> 122) \<or> (48 \<le> c \<and> c \<le> 57) \<or>
      c = 43 \<or> c = 47 \<or> c = 61)"

definition sample_lib :: pylib where
  "sample_lib =
     \<lparr>unicode_decimal = (\<lambda>c. 1632 \<le> c \<and> c \<le> 1641),
      b64decode_decode =
        (\<lambda>enc t.
           if enc \<noteq> ascii ''utf-8'' then Inl (ascii ''unknown encoding'')
           else if list_ex (\<lambda>c. 128 \<le> c) t then
             Inl (ascii ''string argument should contain only ASCII characters'')
           else (case map_of sample_decodings (filter is_base64_char t) of
                   Some result \<Rightarrow> result
                 | None \<Rightarrow> Inl (ascii ''Incorrect padding'')))\<rparr>"

definition mock_world :: "str option \<Rightarrow> str option \<Rightarrow> http_outcome \<Rightarrow> http_outcome \<Rightarrow> world" where
  "mock_world token org first second =
     \<lparr>os_environ = (\<lambda>var. if var = ascii ''MCP_GITHUB_TOKEN'' then token else None),
      dotenv_values =
        (\<lambda>file var.
           if file = ascii ''.mcp_env'' \<and> var = ascii ''GITHUB_EVAL_ORG'' then org else None),
      http_get =
        (\<lambda>k req.
           if k = 0 then first
           else if k = 1 then second
           else Raises (ascii ''connection refused''))\<rparr>"

definition file_response :: "str \<Rightarrow> http_outcome" where
  "file_response b64 =
     Responds 200
       (Inr (JObject [(ascii ''encoding'', JString (ascii ''base64'')),
                      (ascii ''content'', JString b64)]))"

text \<open>A configuration with every flag switched off, and the script's files and names.\<close>

definition CONFIG_flags_off :: config where
  "CONFIG_flags_off =
     CONFIG
       \<lparr>FILES_TO_VERIFY :=
          (FILES_TO_VERIFY CONFIG)
            \<lparr>reference_file :=
               (reference_file (FILES_TO_VERIFY CONFIG))
                 \<lparr>content_checks :=
                    (content_checks (reference_file (FILES_TO_VERIFY CONFIG)))
                      \<lparr>check_entries := False\<rparr>\<rparr>\<rparr>,
        VERIFICATION_FLOW :=
          \<lparr>check_answer_file_existence = False,
           check_answer_format = False,
           verify_answer_value_flag = False,
           check_reference_file = False,
           check_section_existence = False,
           check_required_entries = False\<rparr>\<rparr>"

text \<open>
  The script's configuration with \<^verbatim>\<open>content_checks.check_entries\<close> switched off and
  every flag of \<^verbatim>\<open>VERIFICATION_FLOW\<close> on.
\<close>

definition CONFIG_entries_off :: config where
  "CONFIG_entries_off =
     CONFIG
       \<lparr>FILES_TO_VERIFY :=
          (FILES_TO_VERIFY CONFIG)
            \<lparr>reference_file :=
               (reference_file (FILES_TO_VERIFY CONFIG))
                 \<lparr>content_checks :=
                    (content_checks (reference_file (FILES_TO_VERIFY CONFIG)))
                      \<lparr>check_entries := False\<rparr>\<rparr>\<rparr>\<rparr>"

section \<open>Strings and the date pattern\<close>

lemma startswith_iff: "startswith s p = (\<exists>r. s = p @ r)"
  by (induction s p rule: startswith.induct) auto

lemma contains_iff: "contains s sub = is_substring sub s"
  unfolding is_substring_def
proof (induction s)
  case Nil
  then show ?case by auto
next
  case (Cons c cs)
  show ?case
  proof
    assume "contains (c # cs) sub"
    then consider "startswith (c # cs) sub" | "contains cs sub" by auto
    then show "\<exists>before after. c # cs = before @ sub @ after"
    proof cases
      case 1
      then obtain r where "c # cs = sub @ r" by (auto simp: startswith_iff)
      then have "c # cs = [] @ sub @ r" by simp
      then show ?thesis by blast
    next
      case 2
      then obtain before after where "cs = before @ sub @ after" using Cons.IH by auto
      then have "c # cs = (c # before) @ sub @ after" by simp
      then show ?thesis by blast
    qed
  next
    assume "\<exists>before after. c # cs = before @ sub @ after"
    then obtain before after where e: "c # cs = before @ sub @ after" by blast
    show "contains (c # cs) sub"
    proof (cases before)
      case Nil
      with e have "startswith (c # cs) sub" by (auto simp: startswith_iff)
      then show ?thesis by simp
    next
      case (Cons a before')
      with e have "cs = before' @ sub @ after" by simp
      then have "contains cs sub" using Cons.IH by blast
      then show ?thesis by simp
    qed
  qed
qed

lemma strip_last: "strip s = xs @ [c] \<Longrightarrow> \<not> isspace c"
proof -
  assume a: "strip s = xs @ [c]"
  then have "dropWhile isspace (rev (dropWhile isspace s)) = c # rev xs"
    unfolding strip_def by (metis rev.simps(2) rev_swap)
  then show ?thesis by (metis hd_dropWhile list.sel(1) list.distinct(1))
qed

lemma take_atoms_eq:
  "take_atoms lib a n s =
     (if n \<le> length s \<and> list_all (match_atom lib a) (take n s) then Some (drop n s) else None)"
proof (induction n arbitrary: s)
  case 0
  then show ?case by simp
next
  case (Suc n)
  then show ?case by (cases s) auto
qed

lemma match_here_width:
  "match_here lib p b s \<Longrightarrow> sum_list (map item_width p) \<le> length s"
proof (induction p arbitrary: b s)
  case Nil
  then show ?case by simp
next
  case (Cons i p)
  show ?case
  proof (cases i)
    case Caret
    with Cons show ?thesis by auto
  next
    case Dollar
    with Cons show ?thesis by auto
  next
    case (One a)
    with Cons.prems obtain c cs where s: "s = c # cs" and m: "match_here lib p False cs"
      by (auto split: list.splits)
    from Cons.IH [OF m] s One show ?thesis by simp
  next
    case (Times a n)
    with Cons.prems have n: "n \<le> length s" and m: "match_here lib p (b \<and> n = 0) (drop n s)"
      by (auto simp: take_atoms_eq split: if_splits option.splits)
    from Cons.IH [OF m] n Times show ?thesis by simp
  qed
qed

lemma ten_long:
  assumes "10 \<le> length (t :: str)"
  obtains a0 a1 a2 a3 a4 a5 a6 a7 a8 a9 r
  where "t = a0 # a1 # a2 # a3 # a4 # a5 # a6 # a7 # a8 # a9 # r"
proof -
  have ex: "length xs = 10 \<Longrightarrow>
      \<exists>a0 a1 a2 a3 a4 a5 a6 a7 a8 a9. xs = [a0, a1, a2, a3, a4, a5, a6, a7, a8, a9]"
    for xs :: str
    by (simp add: length_Suc_conv eval_nat_numeral) blast
  have "length (take 10 t) = 10" using assms by simp
  from ex [OF this] obtain a0 a1 a2 a3 a4 a5 a6 a7 a8 a9
    where "take 10 t = [a0, a1, a2, a3, a4, a5, a6, a7, a8, a9]" by blast
  then have "t = a0 # a1 # a2 # a3 # a4 # a5 # a6 # a7 # a8 # a9 # drop 10 t"
    by (metis append_take_drop_id append_Cons append_Nil)
  then show ?thesis using that by blast
qed

text \<open>
  What \<^verbatim>\<open>re.match\<close> with the date pattern accepts: a date-shaped text, alone or
  followed by one newline.
\<close>

lemma re_match_date_pattern:
  "re_match lib date_pattern t =
     (spec_date_shaped lib (take 10 t) \<and> (drop 10 t = [] \<or> drop 10 t = [10]))"
proof (cases "10 \<le> length t")
  case True
  then obtain a0 a1 a2 a3 a4 a5 a6 a7 a8 a9 r
    where t: "t = a0 # a1 # a2 # a3 # a4 # a5 # a6 # a7 # a8 # a9 # r"
    by (rule ten_long)
  show ?thesis unfolding t
    by (simp add: re_match_def date_pattern_def spec_date_shaped_def eval_nat_numeral)
next
  case False
  then have "\<not> re_match lib date_pattern t"
    using match_here_width [of lib date_pattern True t]
    by (auto simp: re_match_def date_pattern_def)
  moreover have "\<not> spec_date_shaped lib (take 10 t)"
    using False by (simp add: spec_date_shaped_def)
  ultimately show ?thesis by simp
qed

text \<open>After \<^verbatim>\<open>strip()\<close> no newline is left at the end, so the match is exact.\<close>

lemma re_match_date_strip:
  "re_match lib date_pattern (strip c) = spec_date_shaped lib (strip c)"
proof -
  have "drop 10 (strip c) \<noteq> [10]"
  proof
    assume d: "drop 10 (strip c) = [10]"
    have "strip c = take 10 (strip c) @ [10]" using d by (metis append_take_drop_id)
    then have "\<not> isspace 10" by (rule strip_last)
    then show False by (simp add: isspace_def)
  qed
  moreover have "spec_date_shaped lib (take 10 (strip c)) \<and> drop 10 (strip c) = []
     \<longleftrightarrow> spec_date_shaped lib (strip c)"
    by (auto simp: spec_date_shaped_def)
  ultimately show ?thesis by (auto simp: re_match_date_pattern)
qed

lemma strip_date16: "strip (ascii ''2023-11-16'') = ascii ''2023-11-16''"
  by (simp add: strip_def ascii_def isspace_def)

lemma strip_date15: "strip (ascii ''2023-11-15'') = ascii ''2023-11-15''"
  by (simp add: strip_def ascii_def isspace_def)

text \<open>The expected date matches the pattern, whatever the Unicode tables hold.\<close>

lemma expected_date_matches: "re_match lib date_pattern (ascii ''2023-11-15'')"
  by (simp add: re_match_def date_pattern_def ascii_def isdecimal_def eval_nat_numeral)

section \<open>Properties of the checks\<close>

lemma entries_loop_eq:
  "entries_loop path content entries all_present s =
     (all_present \<and> list_all (contains content) entries,
      s\<lparr>printed := printed s @
           map (\<lambda>e. (Stderr, MsgEntryMissing path e))
             (filter (\<lambda>e. \<not> contains content e) entries)\<rparr>)"
proof (induction entries arbitrary: all_present s)
  case Nil
  then show ?case by simp
next
  case (Cons e es)
  then show ?case by (simp add: print_err_def)
qed

lemma readme_short_facts:
  "contains readme_short (ascii ''## Voxel Engine Implementation'')"
  "contains readme_short (ascii ''C++ Voxel Engine Fundamentals'')"
  "\<not> contains readme_short (ascii ''Vulkan-based Voxel Rendering'')"
  "readme_short \<noteq> []"
  by (simp_all add: readme_short_def ascii_def)

lemma readme_full_facts:
  "contains readme_full (ascii ''## Voxel Engine Implementation'')"
  "contains readme_full (ascii ''C++ Voxel Engine Fundamentals'')"
  "contains readme_full (ascii ''Vulkan-based Voxel Rendering'')"
  "readme_full \<noteq> []"
  by (simp_all add: readme_full_def ascii_def)

lemma config_simps:
  "check_answer_file_existence (VERIFICATION_FLOW CONFIG)"
  "check_answer_format (VERIFICATION_FLOW CONFIG)"
  "verify_answer_value_flag (VERIFICATION_FLOW CONFIG)"
  "check_reference_file (VERIFICATION_FLOW CONFIG)"
  "check_section_existence (VERIFICATION_FLOW CONFIG)"
  "check_required_entries (VERIFICATION_FLOW CONFIG)"
  "check_entries (content_checks (reference_file (FILES_TO_VERIFY CONFIG)))"
  "required_entries (content_checks (reference_file (FILES_TO_VERIFY CONFIG))) =
     [ascii ''C++ Voxel Engine Fundamentals'', ascii ''Vulkan-based Voxel Rendering'']"
  "required_section (content_checks (reference_file (FILES_TO_VERIFY CONFIG))) =
     ascii ''## Voxel Engine Implementation''"
  "reference_path (reference_file (FILES_TO_VERIFY CONFIG)) = ascii ''README.md''"
  "answer_path (answer_file (FILES_TO_VERIFY CONFIG)) = ascii ''ANSWER.md''"
  "answer_encoding (answer_file (FILES_TO_VERIFY CONFIG)) = ascii ''utf-8''"
  "expected_value (content_schema (answer_file (FILES_TO_VERIFY CONFIG))) = ascii ''2023-11-15''"
  "pattern (content_schema (answer_file (FILES_TO_VERIFY CONFIG))) = date_pattern"
  "repo_name (REPO_CONFIG CONFIG) = ascii ''voxel-engine-docs''"
  "target_branch (REPO_CONFIG CONFIG) = ascii ''main''"
  "api_version (REPO_CONFIG CONFIG) = ascii ''v3''"
  "timeout (REPO_CONFIG CONFIG) = 10"
  "github_token_var (ENV_CONFIG CONFIG) = ascii ''MCP_GITHUB_TOKEN''"
  "github_org_var (ENV_CONFIG CONFIG) = ascii ''GITHUB_EVAL_ORG''"
  "env_file (ENV_CONFIG CONFIG) = ascii ''.mcp_env''"
  by (simp_all add: CONFIG_def)

lemma flags_off_simps:
  "check_answer_file_existence (VERIFICATION_FLOW CONFIG_flags_off) = False"
  "check_answer_format (VERIFICATION_FLOW CONFIG_flags_off) = False"
  "verify_answer_value_flag (VERIFICATION_FLOW CONFIG_flags_off) = False"
  "check_reference_file (VERIFICATION_FLOW CONFIG_flags_off) = False"
  "check_section_existence (VERIFICATION_FLOW CONFIG_flags_off) = False"
  "check_required_entries (VERIFICATION_FLOW CONFIG_flags_off) = False"
  by (simp_all add: CONFIG_flags_off_def)

text \<open>
  Claim C4. For every content of the answer file, the format check passes exactly when
  the content with its surrounding whitespace removed matches the configured pattern
  \<^verbatim>\<open>^\d{4}-\d{2}-\d{2}$\<close>, which is to say exactly when it is four digits, a hyphen, two
  digits, a hyphen and two digits; the value check passes exactly when the stripped
  content is \<^verbatim>\<open>2023-11-15\<close>. For the content \<^verbatim>\<open>2023-11-16\<close> the format check passes
  with its confirmation, and the value check fails with the line that reports the
  expected \<^verbatim>\<open>2023-11-15\<close> and the actual \<^verbatim>\<open>2023-11-16\<close>.
\<close>

theorem answer_format_and_value_checks:
  "fst (verify_answer_format CONFIG lib content s) = re_match lib date_pattern (strip content) \<and>
   fst (verify_answer_format CONFIG lib content s) = spec_date_shaped lib (strip content) \<and>
   fst (verify_answer_value CONFIG content s) = (strip content = ascii ''2023-11-15'') \<and>
   verify_answer_format CONFIG lib (ascii ''2023-11-16'') s =
     (True, print_out (MsgFormatOk date_pattern) s) \<and>
   verify_answer_value CONFIG (ascii ''2023-11-16'') s =
     (False, print_err (MsgValueMismatch (ascii ''2023-11-15'') (ascii ''2023-11-16'')) s)"
proof -
  have f: "fst (verify_answer_format CONFIG lib c s) = re_match lib date_pattern (strip c)" for c
    by (simp add: verify_answer_format_def CONFIG_def)
  have v: "fst (verify_answer_value CONFIG c s) = (strip c = ascii ''2023-11-15'')" for c
    by (simp add: verify_answer_value_def CONFIG_def Let_def)
  have m: "re_match lib date_pattern (strip (ascii ''2023-11-16''))"
    unfolding strip_date16
    by (simp add: re_match_def date_pattern_def ascii_def isdecimal_def eval_nat_numeral)
  have e1: "verify_answer_format CONFIG lib (ascii ''2023-11-16'') s =
      (True, print_out (MsgFormatOk date_pattern) s)"
    using m by (simp add: verify_answer_format_def CONFIG_def)
  have e2: "verify_answer_value CONFIG (ascii ''2023-11-16'') s =
      (False, print_err (MsgValueMismatch (ascii ''2023-11-15'') (ascii ''2023-11-16'')) s)"
    unfolding verify_answer_value_def strip_date16 by (simp add: CONFIG_def ascii_def)
  show ?thesis using f v e1 e2 re_match_date_strip by simp
qed

text \<open>
  The theorem at two contents: the expected date between a space and a newline passes both
  checks, and \<^verbatim>\<open>15 Nov 2023\<close> fails both.
\<close>

theorem answer_format_and_value_checks_witness:
  "fst (verify_answer_format CONFIG sample_lib ([32] @ ascii ''2023-11-15'' @ [10]) io0) \<and>
   fst (verify_answer_value CONFIG ([32] @ ascii ''2023-11-15'' @ [10]) io0) \<and>
   \<not> fst (verify_answer_format CONFIG sample_lib (ascii ''15 Nov 2023'') io0) \<and>
   \<not> fst (verify_answer_value CONFIG (ascii ''15 Nov 2023'') io0)"
proof -
  have s1: "strip ([32] @ ascii ''2023-11-15'' @ [10]) = ascii ''2023-11-15''"
    by (simp add: strip_def ascii_def isspace_def)
  have s2: "strip (ascii ''15 Nov 2023'') = ascii ''15 Nov 2023''"
    by (simp add: strip_def ascii_def isspace_def)
  have d1: "spec_date_shaped sample_lib (ascii ''2023-11-15'')"
    by (simp add: spec_date_shaped_def ascii_def isdecimal_def)
  have d2: "\<not> spec_date_shaped sample_lib (ascii ''15 Nov 2023'')"
    by (simp add: spec_date_shaped_def ascii_def)
  have n: "ascii ''15 Nov 2023'' \<noteq> ascii ''2023-11-15''"
    by (simp add: ascii_def)
  note a = answer_format_and_value_checks [of sample_lib "[32] @ ascii ''2023-11-15'' @ [10]" io0]
  note b = answer_format_and_value_checks [of sample_lib "ascii ''15 Nov 2023''" io0]
  have "fst (verify_answer_format CONFIG sample_lib ([32] @ ascii ''2023-11-15'' @ [10]) io0)"
    using a d1 unfolding s1 by blast
  moreover have "fst (verify_answer_value CONFIG ([32] @ ascii ''2023-11-15'' @ [10]) io0)"
    using a unfolding s1 by blast
  moreover have "\<not> fst (verify_answer_format CONFIG sample_lib (ascii ''15 Nov 2023'') io0)"
    using b d2 unfolding s2 by blast
  moreover have "\<not> fst (verify_answer_value CONFIG (ascii ''15 Nov 2023'') io0)"
    using b n unfolding s2 by blast
  ultimately show ?thesis by blast
qed

text \<open>
  Claim C7. Each of the six checks, when its flag of \<^verbatim>\<open>VERIFICATION_FLOW\<close> is false,
  returns true and leaves the output (and the requests) as they were, whatever content
  it is given.
\<close>

theorem disabled_checks_pass_silently:
  "(\<not> check_answer_file_existence (VERIFICATION_FLOW cfg) \<longrightarrow>
      verify_answer_file_existence cfg optional_content s = (True, s)) \<and>
   (\<not> check_answer_format (VERIFICATION_FLOW cfg) \<longrightarrow>
      verify_answer_format cfg lib content s = (True, s)) \<and>
   (\<not> verify_answer_value_flag (VERIFICATION_FLOW cfg) \<longrightarrow>
      verify_answer_value cfg content s = (True, s)) \<and>
   (\<not> check_reference_file (VERIFICATION_FLOW cfg) \<longrightarrow>
      verify_reference_file cfg optional_content s = (True, s)) \<and>
   (\<not> check_section_existence (VERIFICATION_FLOW cfg) \<longrightarrow>
      verify_required_section cfg content s = (True, s)) \<and>
   (\<not> check_required_entries (VERIFICATION_FLOW cfg) \<longrightarrow>
      verify_required_entries cfg content s = (True, s))"
  by (simp add: verify_answer_file_existence_def verify_answer_format_def
      verify_answer_value_def verify_reference_file_def verify_required_section_def
      verify_required_entries_def)

text \<open>
  The theorem at the configuration with all flags off: a missing file, a text that is no
  date and a text without the heading pass all six checks with no output.
\<close>

theorem disabled_checks_pass_silently_witness:
  "\<not> check_answer_file_existence (VERIFICATION_FLOW CONFIG_flags_off) \<and>
   \<not> check_answer_format (VERIFICATION_FLOW CONFIG_flags_off) \<and>
   \<not> verify_answer_value_flag (VERIFICATION_FLOW CONFIG_flags_off) \<and>
   \<not> check_reference_file (VERIFICATION_FLOW CONFIG_flags_off) \<and>
   \<not> check_section_existence (VERIFICATION_FLOW CONFIG_flags_off) \<and>
   \<not> check_required_entries (VERIFICATION_FLOW CONFIG_flags_off) \<and>
   verify_answer_file_existence CONFIG_flags_off None io0 = (True, io0) \<and>
   verify_answer_format CONFIG_flags_off sample_lib (ascii ''not a date'') io0 = (True, io0) \<and>
   verify_answer_value CONFIG_flags_off (ascii ''not a date'') io0 = (True, io0) \<and>
   verify_reference_file CONFIG_flags_off None io0 = (True, io0) \<and>
   verify_required_section CONFIG_flags_off (ascii ''no heading'') io0 = (True, io0) \<and>
   verify_required_entries CONFIG_flags_off (ascii ''no heading'') io0 = (True, io0)"
  using disabled_checks_pass_silently [of CONFIG_flags_off None io0 sample_lib "ascii ''not a date''"]
    disabled_checks_pass_silently [of CONFIG_flags_off None io0 sample_lib "ascii ''no heading''"]
  by (simp add: flags_off_simps)

text \<open>
  Claim C9. The required-entries check runs only when both
  \<^verbatim>\<open>VERIFICATION_FLOW.check_required_entries\<close> and the reference file's
  \<^verbatim>\<open>content_checks.check_entries\<close> are true: when either is false it returns true and
  prints nothing, for every content, so also for one that lacks required entries.
\<close>

theorem entries_check_needs_both_flags:
  "\<not> check_required_entries (VERIFICATION_FLOW cfg) \<or>
   \<not> check_entries (content_checks (reference_file (FILES_TO_VERIFY cfg)))
   \<Longrightarrow> verify_required_entries cfg content s = (True, s)"
  by (auto simp add: verify_required_entries_def)

text \<open>
  The theorem on a README without the second required entry: with only
  \<^verbatim>\<open>check_entries\<close> off, and with the flow flag off, the check passes silently.
\<close>

theorem entries_check_needs_both_flags_witness:
  "check_required_entries (VERIFICATION_FLOW CONFIG_entries_off) \<and>
   \<not> check_entries (content_checks (reference_file (FILES_TO_VERIFY CONFIG_entries_off))) \<and>
   required_entries (content_checks (reference_file (FILES_TO_VERIFY CONFIG_entries_off))) =
     [ascii ''C++ Voxel Engine Fundamentals'', ascii ''Vulkan-based Voxel Rendering''] \<and>
   \<not> contains readme_short (ascii ''Vulkan-based Voxel Rendering'') \<and>
   verify_required_entries CONFIG_entries_off readme_short io0 = (True, io0) \<and>
   \<not> check_required_entries (VERIFICATION_FLOW CONFIG_flags_off) \<and>
   verify_required_entries CONFIG_flags_off readme_short io0 = (True, io0)"
proof -
  have f: "check_required_entries (VERIFICATION_FLOW CONFIG_entries_off)"
    "\<not> check_entries (content_checks (reference_file (FILES_TO_VERIFY CONFIG_entries_off)))"
    "required_entries (content_checks (reference_file (FILES_TO_VERIFY CONFIG_entries_off))) =
     [ascii ''C++ Voxel Engine Fundamentals'', ascii ''Vulkan-based Voxel Rendering'']"
    by (simp_all add: CONFIG_entries_off_def CONFIG_def)
  show ?thesis
    using f readme_short_facts flags_off_simps
      entries_check_needs_both_flags [of CONFIG_entries_off readme_short io0]
      entries_check_needs_both_flags [of CONFIG_flags_off readme_short io0]
    by simp
qed

text \<open>
  Claim C6. With the entries check and the section check switched on, for every content
  of the reference file and every configured list of entries: the required-entries check
  passes exactly when every entry of the list is a substring of the content; when it
  fails, its output is one warning for each missing entry, in the order of the list,
  followed by the final failure line; the required-section check passes, with its
  confirmation, whenever the heading is a substring of the content; and in the list of
  checks of \<^verbatim>\<open>run_verification\<close> the section check has run and passed before the
  entries check prints its warnings and fails.
\<close>

theorem required_entries_check:
  "let path = reference_path (reference_file (FILES_TO_VERIFY cfg));
       section = required_section (content_checks (reference_file (FILES_TO_VERIFY cfg)));
       entries = required_entries (content_checks (reference_file (FILES_TO_VERIFY cfg)));
       warnings = map (\<lambda>e. (Stderr, MsgEntryMissing path e))
                    (filter (\<lambda>e. \<not> is_substring e content) entries);
       s1 = snd (verify_reference_file cfg (Some content) s)
   in check_required_entries (VERIFICATION_FLOW cfg) \<and>
      check_entries (content_checks (reference_file (FILES_TO_VERIFY cfg))) \<and>
      check_section_existence (VERIFICATION_FLOW cfg) \<longrightarrow>
        fst (verify_required_entries cfg content s) =
          (\<forall>entry \<in> set entries. is_substring entry content) \<and>
        (\<not> fst (verify_required_entries cfg content s) \<longrightarrow>
           snd (verify_required_entries cfg content s) =
             s\<lparr>printed := printed s @ warnings @ [(Stderr, MsgEntriesIncomplete)]\<rparr>) \<and>
        (is_substring section content \<longrightarrow>
           verify_required_section cfg content s = (True, print_out (MsgSectionFound section) s)) \<and>
        (content \<noteq> [] \<and> is_substring section content \<and>
         \<not> fst (verify_required_entries cfg content s) \<longrightarrow>
           reference_checks cfg (Some content) s =
             (False,
              s1\<lparr>printed := printed s1 @ [(Stdout, MsgSectionFound section)] @ warnings @
                                [(Stderr, MsgEntriesIncomplete)]\<rparr>))"
proof -
  have r: "fst (verify_required_entries cfg content s') =
             list_all (contains content)
               (required_entries (content_checks (reference_file (FILES_TO_VERIFY cfg))))"
    if "check_required_entries (VERIFICATION_FLOW cfg)"
       "check_entries (content_checks (reference_file (FILES_TO_VERIFY cfg)))" for s'
    using that by (simp add: verify_required_entries_def entries_loop_eq Let_def)
  have o: "snd (verify_required_entries cfg content s') =
       s'\<lparr>printed := printed s' @
           map (\<lambda>e. (Stderr, MsgEntryMissing (reference_path (reference_file (FILES_TO_VERIFY cfg))) e))
             (filter (\<lambda>e. \<not> contains content e)
                (required_entries (content_checks (reference_file (FILES_TO_VERIFY cfg))))) @
           [(Stderr, MsgEntriesIncomplete)]\<rparr>"
    if "check_required_entries (VERIFICATION_FLOW cfg)"
       "check_entries (content_checks (reference_file (FILES_TO_VERIFY cfg)))"
       "\<not> list_all (contains content)
               (required_entries (content_checks (reference_file (FILES_TO_VERIFY cfg))))" for s'
    using that by (simp add: verify_required_entries_def entries_loop_eq print_err_def Let_def)
  have sec: "verify_required_section cfg content s' =
       (True, print_out (MsgSectionFound (required_section (content_checks (reference_file (FILES_TO_VERIFY cfg))))) s')"
    if "check_section_existence (VERIFICATION_FLOW cfg)"
       "contains content (required_section (content_checks (reference_file (FILES_TO_VERIFY cfg))))" for s'
    using that by (simp add: verify_required_section_def Let_def)
  have rc: "reference_checks cfg (Some content) s =
       (False,
        (snd (verify_reference_file cfg (Some content) s))
          \<lparr>printed := printed (snd (verify_reference_file cfg (Some content) s)) @
             [(Stdout, MsgSectionFound (required_section (content_checks (reference_file (FILES_TO_VERIFY cfg)))))] @
             map (\<lambda>e. (Stderr, MsgEntryMissing (reference_path (reference_file (FILES_TO_VERIFY cfg))) e))
               (filter (\<lambda>e. \<not> contains content e)
                  (required_entries (content_checks (reference_file (FILES_TO_VERIFY cfg))))) @
             [(Stderr, MsgEntriesIncomplete)]\<rparr>)"
    if f: "check_required_entries (VERIFICATION_FLOW cfg)"
       "check_entries (content_checks (reference_file (FILES_TO_VERIFY cfg)))"
      and f3: "check_section_existence (VERIFICATION_FLOW cfg)"
      and ne: "content \<noteq> []"
      and c: "contains content (required_section (content_checks (reference_file (FILES_TO_VERIFY cfg))))"
      and m: "\<not> list_all (contains content)
               (required_entries (content_checks (reference_file (FILES_TO_VERIFY cfg))))"
  proof -
    obtain r1 s1 where v1: "verify_reference_file cfg (Some content) s = (r1, s1)"
      by (cases "verify_reference_file cfg (Some content) s")
    have v3: "verify_required_entries cfg content s' =
        (False,
         s'\<lparr>printed := printed s' @
           map (\<lambda>e. (Stderr, MsgEntryMissing (reference_path (reference_file (FILES_TO_VERIFY cfg))) e))
             (filter (\<lambda>e. \<not> contains content e)
                (required_entries (content_checks (reference_file (FILES_TO_VERIFY cfg))))) @
           [(Stderr, MsgEntriesIncomplete)]\<rparr>)" for s'
      using r [OF f, of s'] o [OF f m, of s'] m by (simp add: prod_eq_iff)
    show ?thesis
      unfolding reference_checks_def v1
      using ne by (simp add: sec [OF f3 c] v3 print_out_def)
  qed
  show ?thesis
    unfolding Let_def contains_iff [symmetric]
    apply (intro impI conjI)
    subgoal by (simp add: r list_all_iff)
    subgoal by (simp add: r o)
    subgoal by (simp add: sec)
    subgoal by (simp add: rc r)
    done
qed


text \<open>
  The theorem on a README that has the heading and the first entry and lacks the second,
  and on the complete README.
\<close>

theorem required_entries_check_witness:
  "\<not> fst (verify_required_entries CONFIG readme_short io0) \<and>
   snd (verify_required_entries CONFIG readme_short io0) =
     io0\<lparr>printed :=
        [(Stderr, MsgEntryMissing (ascii ''README.md'') (ascii ''Vulkan-based Voxel Rendering'')),
         (Stderr, MsgEntriesIncomplete)]\<rparr> \<and>
   verify_required_section CONFIG readme_short io0 =
     (True, print_out (MsgSectionFound (ascii ''## Voxel Engine Implementation'')) io0) \<and>
   reference_checks CONFIG (Some readme_short) io0 =
     (False,
      io0\<lparr>printed :=
        [(Stdout, MsgReferenceExists (ascii ''README.md'')),
         (Stdout, MsgSectionFound (ascii ''## Voxel Engine Implementation'')),
         (Stderr, MsgEntryMissing (ascii ''README.md'') (ascii ''Vulkan-based Voxel Rendering'')),
         (Stderr, MsgEntriesIncomplete)]\<rparr>) \<and>
   fst (verify_required_entries CONFIG readme_full io0)"
proof -
  let ?cc = "content_checks (reference_file (FILES_TO_VERIFY CONFIG))"
  have flags: "check_required_entries (VERIFICATION_FLOW CONFIG) \<and> check_entries ?cc \<and>
      check_section_existence (VERIFICATION_FLOW CONFIG)"
    by (simp add: config_simps)
  have rf: "snd (verify_reference_file CONFIG (Some readme_short) io0) =
      io0\<lparr>printed := [(Stdout, MsgReferenceExists (ascii ''README.md''))]\<rparr>"
    by (simp add: verify_reference_file_def config_simps readme_short_facts print_out_def io0_def)
  have missing: "filter (\<lambda>e. \<not> is_substring e readme_short) (required_entries ?cc) =
      [ascii ''Vulkan-based Voxel Rendering'']"
    by (simp add: config_simps contains_iff [symmetric] readme_short_facts)
  have some_missing: "\<not> (\<forall>entry \<in> set (required_entries ?cc). is_substring entry readme_short)"
    by (simp add: config_simps contains_iff [symmetric] readme_short_facts)
  have all_there: "\<forall>entry \<in> set (required_entries ?cc). is_substring entry readme_full"
    by (simp add: config_simps contains_iff [symmetric] readme_full_facts)
  have heading: "is_substring (required_section ?cc) readme_short"
    by (simp add: config_simps contains_iff [symmetric] readme_short_facts)
  note short = required_entries_check [of CONFIG readme_short io0, unfolded Let_def]
  note full = required_entries_check [of CONFIG readme_full io0, unfolded Let_def]
  have c1: "\<not> fst (verify_required_entries CONFIG readme_short io0)"
    using short flags some_missing by blast
  have c2: "snd (verify_required_entries CONFIG readme_short io0) =
     io0\<lparr>printed :=
        [(Stderr, MsgEntryMissing (ascii ''README.md'') (ascii ''Vulkan-based Voxel Rendering'')),
         (Stderr, MsgEntriesIncomplete)]\<rparr>"
  proof -
    have "snd (verify_required_entries CONFIG readme_short io0) =
        io0\<lparr>printed := printed io0 @
           map (\<lambda>e. (Stderr, MsgEntryMissing (reference_path (reference_file (FILES_TO_VERIFY CONFIG))) e))
             (filter (\<lambda>e. \<not> is_substring e readme_short) (required_entries ?cc)) @
           [(Stderr, MsgEntriesIncomplete)]\<rparr>"
      using short flags c1 by blast
    then show ?thesis unfolding missing by (simp add: config_simps io0_def)
  qed
  have c3: "verify_required_section CONFIG readme_short io0 =
     (True, print_out (MsgSectionFound (ascii ''## Voxel Engine Implementation'')) io0)"
  proof -
    have "verify_required_section CONFIG readme_short io0 =
        (True, print_out (MsgSectionFound (required_section ?cc)) io0)"
      using short flags heading by blast
    then show ?thesis by (simp add: config_simps)
  qed
  have c4: "reference_checks CONFIG (Some readme_short) io0 =
     (False,
      io0\<lparr>printed :=
        [(Stdout, MsgReferenceExists (ascii ''README.md'')),
         (Stdout, MsgSectionFound (ascii ''## Voxel Engine Implementation'')),
         (Stderr, MsgEntryMissing (ascii ''README.md'') (ascii ''Vulkan-based Voxel Rendering'')),
         (Stderr, MsgEntriesIncomplete)]\<rparr>)"
  proof -
    have "reference_checks CONFIG (Some readme_short) io0 =
        (False,
         (snd (verify_reference_file CONFIG (Some readme_short) io0))
           \<lparr>printed := printed (snd (verify_reference_file CONFIG (Some readme_short) io0)) @
              [(Stdout, MsgSectionFound (required_section ?cc))] @
              map (\<lambda>e. (Stderr, MsgEntryMissing (reference_path (reference_file (FILES_TO_VERIFY CONFIG))) e))
                (filter (\<lambda>e. \<not> is_substring e readme_short) (required_entries ?cc)) @
              [(Stderr, MsgEntriesIncomplete)]\<rparr>)"
      using short flags heading c1 readme_short_facts(4) by blast
    then show ?thesis unfolding missing rf by (simp add: config_simps io0_def)
  qed
  have c5: "fst (verify_required_entries CONFIG readme_full io0)"
    using full flags all_there by blast
  show ?thesis using c1 c2 c3 c4 c5 by blast
qed

section \<open>Properties of the fetch\<close>

text \<open>\<^verbatim>\<open>_call_github_api\<close> by the kind of answer.\<close>

lemma call_github_api_eq:
  "call_github_api cfg w endpoint hdrs org s =
     (let req = api_request cfg endpoint hdrs org;
          s1 = s\<lparr>issued := issued s @ [req]\<rparr>
      in case http_get w (length (issued s)) req of
           Raises e \<Rightarrow> ((False, JNull), print_err (MsgApiException endpoint e) s1)
         | Responds code (Inl e) \<Rightarrow>
             if code = 200 then ((False, JNull), print_err (MsgApiException endpoint e) s1)
             else if code = 404 then ((False, JNull), print_err (MsgApiNotFound endpoint) s1)
             else ((False, JNull), print_err (MsgApiFailed endpoint code) s1)
         | Responds code (Inr data) \<Rightarrow>
             if code = 200 then ((True, data), s1)
             else if code = 404 then ((False, JNull), print_err (MsgApiNotFound endpoint) s1)
             else ((False, JNull), print_err (MsgApiFailed endpoint code) s1))"
  by (simp add: call_github_api_def Let_def split: http_outcome.splits sum.splits)

lemma sample_lib_simps:
  "unicode_decimal sample_lib = (\<lambda>c. 1632 \<le> c \<and> c \<le> 1641)"
  "b64decode_decode sample_lib (ascii ''utf-8'') t =
     (if list_ex (\<lambda>c. 128 \<le> c) t then
        Inl (ascii ''string argument should contain only ASCII characters'')
      else (case map_of sample_decodings (filter is_base64_char t) of
              Some result \<Rightarrow> result
            | None \<Rightarrow> Inl (ascii ''Incorrect padding'')))"
  by (simp_all add: sample_lib_def)

lemma mock_world_simps:
  "os_environ (mock_world token org first second) (ascii ''MCP_GITHUB_TOKEN'') = token"
  "os_environ (mock_world token org first second) (ascii ''GITHUB_EVAL_ORG'') = None"
  "dotenv_values (mock_world token org first second) (ascii ''.mcp_env'') (ascii ''GITHUB_EVAL_ORG'') = org"
  "dotenv_values (mock_world token org first second) (ascii ''.mcp_env'') (ascii ''MCP_GITHUB_TOKEN'') = None"
  "http_get (mock_world token org first second) 0 req = first"
  "http_get (mock_world token org first second) (Suc 0) req = second"
  by (simp_all add: mock_world_def ascii_def)

lemma endpoint_simps:
  "branch_of CONFIG None = ascii ''main''"
  "contents_endpoint (ascii ''ANSWER.md'') (ascii ''main'') = ascii ''contents/ANSWER.md?ref=main''"
  "contents_endpoint (ascii ''README.md'') (ascii ''main'') = ascii ''contents/README.md?ref=main''"
  by (simp_all add: branch_of_def contents_endpoint_def config_simps ascii_def)

text \<open>
  Claim C2. \<^verbatim>\<open>_get_file_content\<close> returns to its caller whatever the network answers,
  every exception of the source being a value that one of its two handlers takes: a
  status 404, any other status but 200, an exception of the request (or of the parsing
  of the body) and an exception of the decoding block, the library's Base64 or UTF-8
  error among them, each give the result \<^verbatim>\<open>None\<close> after the diagnostics of that case
  have been printed; the result is a string only for a status 200 with a body that is
  not empty and decodes, so the returned value tells the failures apart in no way.
\<close>

theorem get_file_content_failures:
  "let branch = branch_of cfg ref;
       endpoint = contents_endpoint file_path branch;
       req = api_request cfg endpoint hdrs org;
       outcome = http_get w (length (issued s)) req;
       s1 = s\<lparr>issued := issued s @ [req]\<rparr>;
       not_found = print_err (MsgFileNotInBranch branch file_path)
   in (\<forall>body. outcome = Responds 404 body \<longrightarrow>
         get_file_content cfg lib w file_path hdrs org ref s =
           (None, not_found (print_err (MsgApiNotFound endpoint) s1))) \<and>
      (\<forall>code body. outcome = Responds code body \<and> code \<noteq> 200 \<and> code \<noteq> 404 \<longrightarrow>
         get_file_content cfg lib w file_path hdrs org ref s =
           (None, not_found (print_err (MsgApiFailed endpoint code) s1))) \<and>
      (\<forall>e. outcome = Raises e \<or> outcome = Responds 200 (Inl e) \<longrightarrow>
         get_file_content cfg lib w file_path hdrs org ref s =
           (None, not_found (print_err (MsgApiException endpoint e) s1))) \<and>
      (\<forall>data err. outcome = Responds 200 (Inr data) \<and> json_truthy data \<and>
           decode_content cfg lib data = Inl err \<longrightarrow>
         get_file_content cfg lib w file_path hdrs org ref s =
           (None, print_err (MsgDecodeFailed file_path err) s1)) \<and>
      (\<forall>kvs b64 e. outcome = Responds 200 (Inr (JObject kvs)) \<and>
           map_of kvs (ascii ''content'') = Some (JString b64) \<and>
           b64decode_decode lib (answer_encoding (answer_file (FILES_TO_VERIFY cfg)))
             (filter (\<lambda>c. c \<noteq> 10) b64) = Inl e \<longrightarrow>
         get_file_content cfg lib w file_path hdrs org ref s =
           (None, print_err (MsgDecodeFailed file_path (CodecError e)) s1)) \<and>
      fst (get_file_content cfg lib w file_path hdrs org ref s) =
        (case outcome of
           Raises e \<Rightarrow> None
         | Responds code body \<Rightarrow>
             (case body of
                Inl e \<Rightarrow> None
              | Inr data \<Rightarrow>
                  if code = 200 \<and> json_truthy data then
                    (case decode_content cfg lib data of Inl err \<Rightarrow> None | Inr t \<Rightarrow> Some t)
                  else None))"
  unfolding Let_def
  apply (intro conjI allI impI)
  subgoal by (simp add: get_file_content_def call_github_api_eq Let_def split: sum.splits)
  subgoal by (simp add: get_file_content_def call_github_api_eq Let_def split: sum.splits)
  subgoal by (auto simp add: get_file_content_def call_github_api_eq Let_def)
  subgoal by (simp add: get_file_content_def call_github_api_eq Let_def)
  subgoal
    by (auto simp add: get_file_content_def call_github_api_eq Let_def decode_content_def
        dict_get_def remove_newlines_def)
  subgoal
    by (simp add: get_file_content_def call_github_api_eq Let_def
        split: http_outcome.splits sum.splits)
  done


text \<open>
  The theorem on four answers to the request for \<^verbatim>\<open>ANSWER.md\<close>: a 404, a 503 whose
  body is not JSON, a timeout, and a file whose content \<^verbatim>\<open>abc\<close> the library refuses
  with \<^verbatim>\<open>Incorrect padding\<close>.
\<close>

theorem get_file_content_failures_witness:
  "(let w = mock_world None None (Responds 404 (Inr (JObject [(ascii ''message'', JString (ascii ''Not Found''))])))
              (Raises (ascii ''timed out''));
        r = get_file_content CONFIG sample_lib w (ascii ''ANSWER.md'') [] (ascii ''eval-org'') None io0
    in fst r = None \<and>
       printed (snd r) =
         [(Stderr, MsgApiNotFound (ascii ''contents/ANSWER.md?ref=main'')),
          (Stderr, MsgFileNotInBranch (ascii ''main'') (ascii ''ANSWER.md''))]) \<and>
   (let w = mock_world None None (Responds 503 (Inl (ascii ''Expecting value''))) (Raises (ascii ''timed out''));
        r = get_file_content CONFIG sample_lib w (ascii ''ANSWER.md'') [] (ascii ''eval-org'') None io0
    in fst r = None \<and>
       printed (snd r) =
         [(Stderr, MsgApiFailed (ascii ''contents/ANSWER.md?ref=main'') 503),
          (Stderr, MsgFileNotInBranch (ascii ''main'') (ascii ''ANSWER.md''))]) \<and>
   (let w = mock_world None None (Raises (ascii ''timed out'')) (Raises (ascii ''timed out''));
        r = get_file_content CONFIG sample_lib w (ascii ''ANSWER.md'') [] (ascii ''eval-org'') None io0
    in fst r = None \<and>
       printed (snd r) =
         [(Stderr, MsgApiException (ascii ''contents/ANSWER.md?ref=main'') (ascii ''timed out'')),
          (Stderr, MsgFileNotInBranch (ascii ''main'') (ascii ''ANSWER.md''))]) \<and>
   (let w = mock_world None None (file_response (ascii ''abc'')) (Raises (ascii ''timed out''));
        r = get_file_content CONFIG sample_lib w (ascii ''ANSWER.md'') [] (ascii ''eval-org'') None io0
    in fst r = None \<and>
       printed (snd r) =
         [(Stderr, MsgDecodeFailed (ascii ''ANSWER.md'') (CodecError (ascii ''Incorrect padding'')))])"
proof -
  note t = get_file_content_failures [where cfg = CONFIG and ref = None and
      file_path = "ascii ''ANSWER.md''" and hdrs = "[]" and org = "ascii ''eval-org''" and
      s = io0 and lib = sample_lib, unfolded Let_def endpoint_simps]
  have i: "length (issued io0) = 0" "printed io0 = []" by (simp_all add: io0_def)
  have bad: "b64decode_decode sample_lib (answer_encoding (answer_file (FILES_TO_VERIFY CONFIG)))
      (filter (\<lambda>c. c \<noteq> 10) (ascii ''abc'')) = Inl (ascii ''Incorrect padding'')"
    unfolding config_simps sample_lib_simps
    by (simp add: sample_decodings_def readme_full_b64_def readme_short_b64_def ascii_def
        is_base64_char_def)
  have c: "map_of [(ascii ''encoding'', JString (ascii ''base64'')), (ascii ''content'', JString (ascii ''abc''))]
      (ascii ''content'') = Some (JString (ascii ''abc''))"
    by (simp add: ascii_def)
  show ?thesis
    unfolding Let_def
    apply (intro conjI)
    subgoal using t [where w = "mock_world None None (Responds 404 (Inr (JObject [(ascii ''message'', JString (ascii ''Not Found''))]))) (Raises (ascii ''timed out''))"]
      by (simp add: i mock_world_simps)
    subgoal using t [where w = "mock_world None None (Responds 404 (Inr (JObject [(ascii ''message'', JString (ascii ''Not Found''))]))) (Raises (ascii ''timed out''))"]
      by (simp add: i mock_world_simps print_err_def)
    subgoal using t [where w = "mock_world None None (Responds 503 (Inl (ascii ''Expecting value''))) (Raises (ascii ''timed out''))"]
      by (simp add: i mock_world_simps)
    subgoal using t [where w = "mock_world None None (Responds 503 (Inl (ascii ''Expecting value''))) (Raises (ascii ''timed out''))"]
      by (simp add: i mock_world_simps print_err_def)
    subgoal using t [where w = "mock_world None None (Raises (ascii ''timed out'')) (Raises (ascii ''timed out''))"]
      by (simp add: i mock_world_simps)
    subgoal using t [where w = "mock_world None None (Raises (ascii ''timed out'')) (Raises (ascii ''timed out''))"]
      by (simp add: i mock_world_simps print_err_def)
    subgoal using t [where w = "mock_world None None (file_response (ascii ''abc'')) (Raises (ascii ''timed out''))"] bad c
      by (simp add: i mock_world_simps file_response_def)
    subgoal using t [where w = "mock_world None None (file_response (ascii ''abc'')) (Raises (ascii ''timed out''))"] bad c
      by (simp add: i mock_world_simps file_response_def print_err_def)
    done
qed

text \<open>
  Claim C10. When the answer to the request has status 200 and its body is a JSON object
  that is not empty and has no \<^verbatim>\<open>content\<close> field, \<^verbatim>\<open>_get_file_content\<close> returns the
  empty string, a present result, and prints nothing (the state changes by the request
  alone); the existence check treats the empty string as it treats \<^verbatim>\<open>None\<close>, and with
  its flag on it fails with its diagnostic. The default \<^verbatim>\<open>""\<close> of \<^verbatim>\<open>.get\<close> goes
  through the library's decoder, so the statement takes from the library that decoding
  the empty text gives the empty string, as \<^verbatim>\<open>base64.b64decode("")\<close> and
  \<^verbatim>\<open>b"".decode("utf-8")\<close> do.
\<close>

theorem missing_content_field_gives_empty_string:
  "let req = api_request cfg (contents_endpoint file_path (branch_of cfg ref)) hdrs org
   in http_get w (length (issued s)) req = Responds 200 (Inr (JObject kvs)) \<and> kvs \<noteq> [] \<and>
      map_of kvs (ascii ''content'') = None \<and>
      b64decode_decode lib (answer_encoding (answer_file (FILES_TO_VERIFY cfg))) [] = Inr [] \<longrightarrow>
        get_file_content cfg lib w file_path hdrs org ref s =
          (Some [], s\<lparr>issued := issued s @ [req]\<rparr>) \<and>
        verify_answer_file_existence cfg (Some []) s' = verify_answer_file_existence cfg None s' \<and>
        (check_answer_file_existence (VERIFICATION_FLOW cfg) \<longrightarrow>
           verify_answer_file_existence cfg (Some []) s' =
             (False,
              print_err (MsgAnswerUnreadable (answer_path (answer_file (FILES_TO_VERIFY cfg)))) s'))"
  by (simp add: Let_def get_file_content_def call_github_api_eq decode_content_def dict_get_def
      remove_newlines_def verify_answer_file_existence_def)

text \<open>
  The theorem on a body \<^verbatim>\<open>{"message": "moved"}\<close> for \<^verbatim>\<open>ANSWER.md\<close>.
\<close>

theorem missing_content_field_gives_empty_string_witness:
  "(let w = mock_world None None
              (Responds 200 (Inr (JObject [(ascii ''message'', JString (ascii ''moved''))])))
              (Raises (ascii ''timed out''));
        r = get_file_content CONFIG sample_lib w (ascii ''ANSWER.md'') [] (ascii ''eval-org'') None io0
    in fst r = Some [] \<and> printed (snd r) = [] \<and>
       verify_answer_file_existence CONFIG (fst r) (snd r) =
         (False, print_err (MsgAnswerUnreadable (ascii ''ANSWER.md'')) (snd r)))"
proof -
  let ?w = "mock_world None None
              (Responds 200 (Inr (JObject [(ascii ''message'', JString (ascii ''moved''))])))
              (Raises (ascii ''timed out''))"
  have i: "length (issued io0) = 0" "printed io0 = []" by (simp_all add: io0_def)
  have d: "b64decode_decode sample_lib (answer_encoding (answer_file (FILES_TO_VERIFY CONFIG))) [] = Inr []"
    unfolding config_simps sample_lib_simps by (simp add: sample_decodings_def)
  have m: "map_of [(ascii ''message'', JString (ascii ''moved''))] (ascii ''content'') = None"
    by (simp add: ascii_def)
  have pre: "http_get ?w (length (issued io0)) req =
        Responds 200 (Inr (JObject [(ascii ''message'', JString (ascii ''moved''))])) \<and>
      [(ascii ''message'', JString (ascii ''moved''))] \<noteq> [] \<and>
      map_of [(ascii ''message'', JString (ascii ''moved''))] (ascii ''content'') = None \<and>
      b64decode_decode sample_lib (answer_encoding (answer_file (FILES_TO_VERIFY CONFIG))) [] = Inr []"
    for req
    using d m by (simp add: i mock_world_simps)
  note t = missing_content_field_gives_empty_string [where cfg = CONFIG and ref = None and
      file_path = "ascii ''ANSWER.md''" and hdrs = "[]" and org = "ascii ''eval-org''" and
      s = io0 and lib = sample_lib and w = ?w and
      kvs = "[(ascii ''message'', JString (ascii ''moved''))]", unfolded Let_def, THEN mp, OF pre]
  have g: "get_file_content CONFIG sample_lib ?w (ascii ''ANSWER.md'') [] (ascii ''eval-org'') None io0 =
      (Some [], io0\<lparr>issued := issued io0 @
         [api_request CONFIG (contents_endpoint (ascii ''ANSWER.md'') (branch_of CONFIG None)) []
            (ascii ''eval-org'')]\<rparr>)"
    by (rule t [THEN conjunct1])
  have e: "verify_answer_file_existence CONFIG (Some []) s' =
      (False, print_err (MsgAnswerUnreadable (ascii ''ANSWER.md'')) s')" for s'
    using t [THEN conjunct2, THEN conjunct2, THEN mp, OF config_simps(1), of s']
    by (simp add: config_simps)
  show ?thesis unfolding Let_def g by (simp add: e i)
qed

section \<open>Properties of the main flow\<close>

lemma check_results_do_not_depend_on_output:
  "fst (verify_answer_file_existence cfg oc s) = fst (verify_answer_file_existence cfg oc s')"
  "fst (verify_answer_format cfg lib c s) = fst (verify_answer_format cfg lib c s')"
  "fst (verify_answer_value cfg c s) = fst (verify_answer_value cfg c s')"
  "fst (verify_reference_file cfg oc s) = fst (verify_reference_file cfg oc s')"
  "fst (verify_required_section cfg c s) = fst (verify_required_section cfg c s')"
  "fst (verify_required_entries cfg c s) = fst (verify_required_entries cfg c s')"
  by (simp_all add: verify_answer_file_existence_def verify_answer_format_def
      verify_answer_value_def verify_reference_file_def verify_required_section_def
      verify_required_entries_def entries_loop_eq Let_def)

lemma fst_guarded:
  assumes "\<And>c. fst (f c s) = fst (f c s')"
  shows "fst (guarded f content s) = fst (guarded f content s')"
  using assms by (cases content) auto

lemma guarded_absent: "\<not> truthy content \<Longrightarrow> guarded f content s = (False, s)"
  by (cases content) auto

lemma answer_checks_fst:
  "fst (answer_checks cfg lib content s) =
     (fst (verify_answer_file_existence cfg content s) \<and>
      fst (guarded (verify_answer_format cfg lib) content s) \<and>
      fst (guarded (verify_answer_value cfg) content s))"
proof -
  obtain r1 s1 where a: "verify_answer_file_existence cfg content s = (r1, s1)"
    by (cases "verify_answer_file_existence cfg content s")
  obtain r2 s2 where b: "guarded (verify_answer_format cfg lib) content s1 = (r2, s2)"
    by (cases "guarded (verify_answer_format cfg lib) content s1")
  obtain r3 s3 where c: "guarded (verify_answer_value cfg) content s2 = (r3, s3)"
    by (cases "guarded (verify_answer_value cfg) content s2")
  have "fst (guarded (verify_answer_format cfg lib) content s) = r2"
    using fst_guarded [of "verify_answer_format cfg lib" s s1 content] b
    by (simp add: check_results_do_not_depend_on_output(2) [of cfg lib _ s s1])
  moreover have "fst (guarded (verify_answer_value cfg) content s) = r3"
    using fst_guarded [of "verify_answer_value cfg" s s2 content] c
    by (simp add: check_results_do_not_depend_on_output(3) [of cfg _ s s2])
  ultimately show ?thesis by (simp add: answer_checks_def a b c)
qed

lemma environ_get_mock:
  "environ_get (mock_world token org first second) (ascii ''.mcp_env'') (ascii ''MCP_GITHUB_TOKEN'') = token"
  "environ_get (mock_world token org first second) (ascii ''.mcp_env'') (ascii ''GITHUB_EVAL_ORG'') = org"
  by (simp_all add: environ_get_def mock_world_simps split: option.splits)

lemma io0_simps: "printed io0 = []" "issued io0 = []"
  by (simp_all add: io0_def)

lemma get_file_content_404:
  "http_get w (length (issued s)) (api_request cfg (contents_endpoint file_path (branch_of cfg ref)) hdrs org)
     = Responds 404 body \<Longrightarrow>
   get_file_content cfg lib w file_path hdrs org ref s =
     (None,
      print_err (MsgFileNotInBranch (branch_of cfg ref) file_path)
        (print_err (MsgApiNotFound (contents_endpoint file_path (branch_of cfg ref)))
           (s\<lparr>issued := issued s @
               [api_request cfg (contents_endpoint file_path (branch_of cfg ref)) hdrs org]\<rparr>)))"
  by (simp add: get_file_content_def call_github_api_eq Let_def split: sum.splits)

text \<open>
  Claim C3. When the token or the organisation is missing after the environment has been
  loaded (not set, or set to the empty string; so for a missing token, a missing
  organisation, and both), \<^verbatim>\<open>run_verification\<close> returns false, the output is the banner,
  the line for each missing variable and the fatal line that ends the run, and the run
  issues no request: the requests issued are the ones issued before it. For the script
  itself the exit status is then 1.
\<close>

theorem missing_credentials_stop_the_run:
  "let env = ENV_CONFIG cfg;
       token = environ_get w (env_file env) (github_token_var env);
       org = environ_get w (env_file env) (github_org_var env);
       r = run_verification cfg lib w s
   in \<not> truthy token \<or> \<not> truthy org \<longrightarrow>
        fst r = False \<and>
        issued (snd r) = issued s \<and>
        printed (snd r) =
          printed s @ [(Stdout, MsgBanner), (Stdout, MsgRule), (Stdout, MsgStep1)] @
          (if \<not> truthy token
           then [(Stderr, MsgEnvVarMissing (github_token_var env) (env_file env))] else []) @
          (if \<not> truthy org
           then [(Stderr, MsgEnvVarMissing (github_org_var env) (env_file env))] else []) @
          [(Stderr, MsgEnvIncomplete)] \<and>
        (cfg = CONFIG \<and> s = io0 \<longrightarrow> fst (main lib w) = 1 \<and> issued (snd (main lib w)) = [])"
  unfolding Let_def
  by (auto simp add: run_verification_def load_environment_def Let_def print_out_def print_err_def
      main_def io0_def)


text \<open>
  The theorem on three worlds: no token, no organisation, neither.
\<close>

theorem missing_credentials_stop_the_run_witness:
  "(let r = run_verification CONFIG sample_lib
              (mock_world None (Some (ascii ''eval-org'')) (file_response []) (file_response [])) io0
    in \<not> fst r \<and> issued (snd r) = [] \<and>
       printed (snd r) =
         [(Stdout, MsgBanner), (Stdout, MsgRule), (Stdout, MsgStep1),
          (Stderr, MsgEnvVarMissing (ascii ''MCP_GITHUB_TOKEN'') (ascii ''.mcp_env'')),
          (Stderr, MsgEnvIncomplete)]) \<and>
   (let r = run_verification CONFIG sample_lib
              (mock_world (Some (ascii ''ghp_x'')) None (file_response []) (file_response [])) io0
    in \<not> fst r \<and> issued (snd r) = [] \<and>
       printed (snd r) =
         [(Stdout, MsgBanner), (Stdout, MsgRule), (Stdout, MsgStep1),
          (Stderr, MsgEnvVarMissing (ascii ''GITHUB_EVAL_ORG'') (ascii ''.mcp_env'')),
          (Stderr, MsgEnvIncomplete)]) \<and>
   (let w = mock_world None None (file_response []) (file_response []);
        r = run_verification CONFIG sample_lib w io0
    in \<not> fst r \<and> issued (snd r) = [] \<and>
       printed (snd r) =
         [(Stdout, MsgBanner), (Stdout, MsgRule), (Stdout, MsgStep1),
          (Stderr, MsgEnvVarMissing (ascii ''MCP_GITHUB_TOKEN'') (ascii ''.mcp_env'')),
          (Stderr, MsgEnvVarMissing (ascii ''GITHUB_EVAL_ORG'') (ascii ''.mcp_env'')),
          (Stderr, MsgEnvIncomplete)] \<and>
       fst (main sample_lib w) = 1 \<and> issued (snd (main sample_lib w)) = [])"
proof -
  have ne: "ascii ''eval-org'' \<noteq> []" "ascii ''ghp_x'' \<noteq> []"
    by (simp_all add: ascii_def)
  note t = missing_credentials_stop_the_run [where cfg = CONFIG and lib = sample_lib and s = io0,
      unfolded Let_def config_simps environ_get_mock]
  have a: "let r = run_verification CONFIG sample_lib
              (mock_world None (Some (ascii ''eval-org'')) (file_response []) (file_response [])) io0
    in \<not> fst r \<and> issued (snd r) = [] \<and>
       printed (snd r) =
         [(Stdout, MsgBanner), (Stdout, MsgRule), (Stdout, MsgStep1),
          (Stderr, MsgEnvVarMissing (ascii ''MCP_GITHUB_TOKEN'') (ascii ''.mcp_env'')),
          (Stderr, MsgEnvIncomplete)]"
    using t [where w = "mock_world None (Some (ascii ''eval-org'')) (file_response []) (file_response [])"]
    by (simp add: io0_simps environ_get_mock ne Let_def)
  have b: "let r = run_verification CONFIG sample_lib
              (mock_world (Some (ascii ''ghp_x'')) None (file_response []) (file_response [])) io0
    in \<not> fst r \<and> issued (snd r) = [] \<and>
       printed (snd r) =
         [(Stdout, MsgBanner), (Stdout, MsgRule), (Stdout, MsgStep1),
          (Stderr, MsgEnvVarMissing (ascii ''GITHUB_EVAL_ORG'') (ascii ''.mcp_env'')),
          (Stderr, MsgEnvIncomplete)]"
    using t [where w = "mock_world (Some (ascii ''ghp_x'')) None (file_response []) (file_response [])"]
    by (simp add: io0_simps environ_get_mock ne Let_def)
  have c: "let w = mock_world None None (file_response []) (file_response []);
        r = run_verification CONFIG sample_lib w io0
    in \<not> fst r \<and> issued (snd r) = [] \<and>
       printed (snd r) =
         [(Stdout, MsgBanner), (Stdout, MsgRule), (Stdout, MsgStep1),
          (Stderr, MsgEnvVarMissing (ascii ''MCP_GITHUB_TOKEN'') (ascii ''.mcp_env'')),
          (Stderr, MsgEnvVarMissing (ascii ''GITHUB_EVAL_ORG'') (ascii ''.mcp_env'')),
          (Stderr, MsgEnvIncomplete)] \<and>
       fst (main sample_lib w) = 1 \<and> issued (snd (main sample_lib w)) = []"
    using t [where w = "mock_world None None (file_response []) (file_response [])"]
    by (simp add: io0_simps environ_get_mock Let_def)
  show ?thesis using a b c by blast
qed

text \<open>
  Claim C5, as the code has it. In the answer-file step the results of the existence,
  format and value checks are combined by conjunction, and the only short-circuit is the
  guard \<^verbatim>\<open>... if answer_content else False\<close> on absent content. On a content that is
  present and not empty the three checks all run, in this order, each on the output the
  one before it left, and the step's result is the conjunction of theirs: a check that
  fails does not keep a later one from running or printing, so after a failed format
  check the value check still prints its mismatch line. When the fetched content is
  absent (\<^verbatim>\<open>None\<close> or empty), neither the format check nor the value check runs or prints:
  the step's result is false and its output is the existence check's alone, which for
  the script's configuration is the one line of the failed existence check, after which
  \<^verbatim>\<open>run_verification\<close> prints the step's failure line and returns false.
\<close>

theorem answer_step_skips_checks_only_on_absent_content:
  "(c \<noteq> [] \<longrightarrow>
      answer_checks cfg lib (Some c) s =
        (let e = verify_answer_file_existence cfg (Some c) s;
             f = verify_answer_format cfg lib c (snd e);
             v = verify_answer_value cfg c (snd f)
         in (fst e \<and> fst f \<and> fst v, snd v))) \<and>
   (c \<noteq> [] \<and> \<not> re_match lib date_pattern (strip c) \<longrightarrow>
      answer_checks CONFIG lib (Some c) s =
        (False,
         s\<lparr>printed := printed s @
             [(Stdout, MsgAnswerExists (ascii ''ANSWER.md'')),
              (Stderr, MsgFormatMismatch date_pattern),
              (Stderr, MsgValueMismatch (ascii ''2023-11-15'') (strip c))]\<rparr>)) \<and>
   (\<not> truthy content \<longrightarrow>
      answer_checks cfg lib content s = (False, snd (verify_answer_file_existence cfg content s)) \<and>
      answer_checks CONFIG lib content s =
        (False, print_err (MsgAnswerUnreadable (ascii ''ANSWER.md'')) s)) \<and>
   (let hdrs = build_headers CONFIG token;
        fetched = get_file_content CONFIG lib w (ascii ''ANSWER.md'') hdrs org None
                    (print_out MsgStep2
                       (print_out (MsgEnvLoaded org (ascii ''voxel-engine-docs'')) s))
    in \<not> truthy (fst fetched) \<longrightarrow>
         verify_files CONFIG lib w token org s =
           (False,
            print_err MsgAnswerFailed
              (print_err (MsgAnswerUnreadable (ascii ''ANSWER.md'')) (snd fetched))))"
proof -
  have present: "answer_checks cfg' lib (Some c) s =
        (let e = verify_answer_file_existence cfg' (Some c) s;
             f = verify_answer_format cfg' lib c (snd e);
             v = verify_answer_value cfg' c (snd f)
         in (fst e \<and> fst f \<and> fst v, snd v))"
    if "c \<noteq> []" for cfg'
    using that by (simp add: answer_checks_def Let_def split_beta)
  have failed: "answer_checks CONFIG lib (Some c) s =
        (False,
         s\<lparr>printed := printed s @
             [(Stdout, MsgAnswerExists (ascii ''ANSWER.md'')),
              (Stderr, MsgFormatMismatch date_pattern),
              (Stderr, MsgValueMismatch (ascii ''2023-11-15'') (strip c))]\<rparr>)"
    if ne: "c \<noteq> []" and nm: "\<not> re_match lib date_pattern (strip c)"
  proof -
    have d: "strip c \<noteq> ascii ''2023-11-15''"
      using nm expected_date_matches [of lib] by auto
    have e: "verify_answer_file_existence CONFIG (Some c) s =
        (True, print_out (MsgAnswerExists (ascii ''ANSWER.md'')) s)"
      using ne by (simp add: verify_answer_file_existence_def config_simps)
    have f: "verify_answer_format CONFIG lib c s' = (False, print_err (MsgFormatMismatch date_pattern) s')"
      for s'
      using nm by (simp add: verify_answer_format_def config_simps)
    have v: "verify_answer_value CONFIG c s' =
        (False, print_err (MsgValueMismatch (ascii ''2023-11-15'') (strip c)) s')" for s'
      using d by (simp add: verify_answer_value_def config_simps)
    show ?thesis
      unfolding present [OF ne] Let_def e f v
      by (simp add: print_out_def print_err_def)
  qed
  have absent: "answer_checks cfg' lib content' s' =
      (False, snd (verify_answer_file_existence cfg' content' s'))"
    if "\<not> truthy content'" for cfg' s' content'
    using that
    by (simp add: answer_checks_def guarded_absent split: prod.splits)
  have ex: "verify_answer_file_existence CONFIG content' s' =
      (False, print_err (MsgAnswerUnreadable (ascii ''ANSWER.md'')) s')"
    if "\<not> truthy content'" for s' content'
    using that by (simp add: verify_answer_file_existence_def config_simps)
  have vf: "verify_files CONFIG lib w token org s =
           (False,
            print_err MsgAnswerFailed
              (print_err (MsgAnswerUnreadable (ascii ''ANSWER.md''))
                 (snd (get_file_content CONFIG lib w (ascii ''ANSWER.md'') (build_headers CONFIG token)
                    org None
                    (print_out MsgStep2
                       (print_out (MsgEnvLoaded org (ascii ''voxel-engine-docs'')) s))))))"
    if n: "\<not> truthy (fst (get_file_content CONFIG lib w (ascii ''ANSWER.md'') (build_headers CONFIG token)
                    org None
                    (print_out MsgStep2
                       (print_out (MsgEnvLoaded org (ascii ''voxel-engine-docs'')) s))))"
  proof -
    obtain a s3 where g: "get_file_content CONFIG lib w (ascii ''ANSWER.md'') (build_headers CONFIG token)
                    org None
                    (print_out MsgStep2
                       (print_out (MsgEnvLoaded org (ascii ''voxel-engine-docs'')) s)) = (a, s3)"
      by (cases "get_file_content CONFIG lib w (ascii ''ANSWER.md'') (build_headers CONFIG token)
                    org None
                    (print_out MsgStep2
                       (print_out (MsgEnvLoaded org (ascii ''voxel-engine-docs'')) s))")
    with n have na: "\<not> truthy a" by simp
    show ?thesis
      unfolding verify_files_def config_simps Let_def g
      by (simp add: absent [OF na] ex [OF na])
  qed
  show ?thesis
    apply (intro conjI impI)
    subgoal by (rule present)
    subgoal by (rule failed) simp_all
    subgoal by (simp add: absent)
    subgoal by (simp add: absent ex)
    subgoal unfolding Let_def by (simp add: vf)
    done
qed

text \<open>
  The theorem on the contents \<^verbatim>\<open>None\<close> and \<^verbatim>\<open>""\<close>, on \<^verbatim>\<open>2023/11/15\<close>, which fails
  the format check and then the value check, on \<^verbatim>\<open>2023-11-15\<close>, which passes all
  three, and on a run whose request for \<^verbatim>\<open>ANSWER.md\<close> is answered with 404: one
  request, and after the fetch's diagnostics only the lines of the existence check and of
  the failed step.
\<close>

theorem answer_step_skips_checks_only_on_absent_content_witness:
  "answer_checks CONFIG sample_lib None io0 =
     (False, io0\<lparr>printed := [(Stderr, MsgAnswerUnreadable (ascii ''ANSWER.md''))]\<rparr>) \<and>
   answer_checks CONFIG sample_lib (Some []) io0 =
     (False, io0\<lparr>printed := [(Stderr, MsgAnswerUnreadable (ascii ''ANSWER.md''))]\<rparr>) \<and>
   answer_checks CONFIG sample_lib (Some (ascii ''2023/11/15'')) io0 =
     (False,
      io0\<lparr>printed :=
        [(Stdout, MsgAnswerExists (ascii ''ANSWER.md'')),
         (Stderr, MsgFormatMismatch date_pattern),
         (Stderr, MsgValueMismatch (ascii ''2023-11-15'') (ascii ''2023/11/15''))]\<rparr>) \<and>
   answer_checks CONFIG sample_lib (Some (ascii ''2023-11-15'')) io0 =
     (True,
      io0\<lparr>printed :=
        [(Stdout, MsgAnswerExists (ascii ''ANSWER.md'')),
         (Stdout, MsgFormatOk date_pattern),
         (Stdout, MsgValueOk (ascii ''2023-11-15''))]\<rparr>) \<and>
   (let w = mock_world (Some (ascii ''ghp_x'')) (Some (ascii ''eval-org''))
              (Responds 404 (Inr (JObject [(ascii ''message'', JString (ascii ''Not Found''))])))
              (file_response readme_full_b64);
        r = verify_files CONFIG sample_lib w (ascii ''ghp_x'') (ascii ''eval-org'') io0
    in \<not> fst r \<and>
       printed (snd r) =
         [(Stdout, MsgEnvLoaded (ascii ''eval-org'') (ascii ''voxel-engine-docs'')),
          (Stdout, MsgStep2),
          (Stderr, MsgApiNotFound (ascii ''contents/ANSWER.md?ref=main'')),
          (Stderr, MsgFileNotInBranch (ascii ''main'') (ascii ''ANSWER.md'')),
          (Stderr, MsgAnswerUnreadable (ascii ''ANSWER.md'')),
          (Stderr, MsgAnswerFailed)] \<and>
       length (issued (snd r)) = 1)"
proof -
  let ?w = "mock_world (Some (ascii ''ghp_x'')) (Some (ascii ''eval-org''))
              (Responds 404 (Inr (JObject [(ascii ''message'', JString (ascii ''Not Found''))])))
              (file_response readme_full_b64)"
  let ?s2 = "print_out MsgStep2 (print_out (MsgEnvLoaded (ascii ''eval-org'') (ascii ''voxel-engine-docs'')) io0)"
  have l: "length (issued ?s2) = 0" by (simp add: print_out_def io0_simps)
  have g: "get_file_content CONFIG sample_lib ?w (ascii ''ANSWER.md'')
             (build_headers CONFIG (ascii ''ghp_x'')) (ascii ''eval-org'') None ?s2 =
      (None,
       print_err (MsgFileNotInBranch (ascii ''main'') (ascii ''ANSWER.md''))
         (print_err (MsgApiNotFound (ascii ''contents/ANSWER.md?ref=main''))
            (?s2\<lparr>issued := issued ?s2 @
               [api_request CONFIG (ascii ''contents/ANSWER.md?ref=main'')
                  (build_headers CONFIG (ascii ''ghp_x'')) (ascii ''eval-org'')]\<rparr>)))"
    using get_file_content_404 [where cfg = CONFIG and ref = None and w = ?w and s = ?s2 and
        file_path = "ascii ''ANSWER.md''", unfolded endpoint_simps l mock_world_simps]
    by simp
  note t = answer_step_skips_checks_only_on_absent_content [where cfg = CONFIG and
      lib = sample_lib and s = io0 and w = ?w and token = "ascii ''ghp_x''" and
      org = "ascii ''eval-org''", unfolded Let_def g]
  have n1: "\<not> truthy None" and n2: "\<not> truthy (Some [])" by simp_all
  have a: "answer_checks CONFIG sample_lib None io0 =
     (False, io0\<lparr>printed := [(Stderr, MsgAnswerUnreadable (ascii ''ANSWER.md''))]\<rparr>)"
    using t [where content = None, THEN conjunct2, THEN conjunct2, THEN conjunct1, THEN mp, OF n1,
        THEN conjunct2]
    by (simp add: print_err_def io0_simps)
  have b: "answer_checks CONFIG sample_lib (Some []) io0 =
     (False, io0\<lparr>printed := [(Stderr, MsgAnswerUnreadable (ascii ''ANSWER.md''))]\<rparr>)"
    using t [where content = "Some []", THEN conjunct2, THEN conjunct2, THEN conjunct1, THEN mp,
        OF n2, THEN conjunct2]
    by (simp add: print_err_def io0_simps)
  have s1: "strip (ascii ''2023/11/15'') = ascii ''2023/11/15''"
    by (simp add: strip_def ascii_def isspace_def)
  have slash: "ascii ''2023/11/15'' \<noteq> [] \<and>
      \<not> re_match sample_lib date_pattern (strip (ascii ''2023/11/15''))"
    unfolding re_match_date_strip unfolding s1
    by (simp add: spec_date_shaped_def ascii_def)
  have c: "answer_checks CONFIG sample_lib (Some (ascii ''2023/11/15'')) io0 =
     (False,
      io0\<lparr>printed :=
        [(Stdout, MsgAnswerExists (ascii ''ANSWER.md'')),
         (Stderr, MsgFormatMismatch date_pattern),
         (Stderr, MsgValueMismatch (ascii ''2023-11-15'') (ascii ''2023/11/15''))]\<rparr>)"
    using t [where c = "ascii ''2023/11/15''", THEN conjunct2, THEN conjunct1, THEN mp, OF slash]
    by (simp add: s1 io0_simps)
  have ne: "ascii ''2023-11-15'' \<noteq> []" by (simp add: ascii_def)
  have m: "re_match sample_lib date_pattern (strip (ascii ''2023-11-15''))"
    unfolding strip_date15 by (rule expected_date_matches)
  have e15: "verify_answer_file_existence CONFIG (Some (ascii ''2023-11-15'')) s' =
      (True, print_out (MsgAnswerExists (ascii ''ANSWER.md'')) s')" for s'
    using ne by (simp add: verify_answer_file_existence_def config_simps)
  have f15: "verify_answer_format CONFIG sample_lib (ascii ''2023-11-15'') s' =
      (True, print_out (MsgFormatOk date_pattern) s')" for s'
    using m by (simp add: verify_answer_format_def config_simps)
  have v15: "verify_answer_value CONFIG (ascii ''2023-11-15'') s' =
      (True, print_out (MsgValueOk (ascii ''2023-11-15'')) s')" for s'
    by (simp add: verify_answer_value_def config_simps strip_date15)
  have d: "answer_checks CONFIG sample_lib (Some (ascii ''2023-11-15'')) io0 =
     (True,
      io0\<lparr>printed :=
        [(Stdout, MsgAnswerExists (ascii ''ANSWER.md'')),
         (Stdout, MsgFormatOk date_pattern),
         (Stdout, MsgValueOk (ascii ''2023-11-15''))]\<rparr>)"
    using t [where c = "ascii ''2023-11-15''", THEN conjunct1, THEN mp, OF ne]
    by (simp add: e15 f15 v15 print_out_def io0_simps)
  have vf: "verify_files CONFIG sample_lib ?w (ascii ''ghp_x'') (ascii ''eval-org'') io0 =
      (False,
       print_err MsgAnswerFailed
         (print_err (MsgAnswerUnreadable (ascii ''ANSWER.md''))
           (print_err (MsgFileNotInBranch (ascii ''main'') (ascii ''ANSWER.md''))
             (print_err (MsgApiNotFound (ascii ''contents/ANSWER.md?ref=main''))
               (?s2\<lparr>issued := issued ?s2 @
                 [api_request CONFIG (ascii ''contents/ANSWER.md?ref=main'')
                    (build_headers CONFIG (ascii ''ghp_x'')) (ascii ''eval-org'')]\<rparr>)))))"
    using t [where content = None, THEN conjunct2, THEN conjunct2, THEN conjunct2] by simp
  show ?thesis
    unfolding Let_def vf using a b c d by (simp add: print_err_def print_out_def io0_simps)
qed

text \<open>
  Claim C5 as the specification words it has a failed earlier check short-circuit the
  later ones. That does not hold of the code: the list given to \<^verbatim>\<open>all\<close> is built
  before \<^verbatim>\<open>all\<close> looks at it. On the content \<^verbatim>\<open>15 Nov 2023\<close> the format check fails,
  and the value check runs all the same and prints its mismatch line.
\<close>

theorem failed_format_check_does_not_stop_value_check:
  "\<not> fst (verify_answer_format CONFIG sample_lib (ascii ''15 Nov 2023'') io0) \<and>
   answer_checks CONFIG sample_lib (Some (ascii ''15 Nov 2023'')) io0 =
     (False,
      io0\<lparr>printed :=
        [(Stdout, MsgAnswerExists (ascii ''ANSWER.md'')),
         (Stderr, MsgFormatMismatch date_pattern),
         (Stderr, MsgValueMismatch (ascii ''2023-11-15'') (ascii ''15 Nov 2023''))]\<rparr>)"
proof -
  have s: "strip (ascii ''15 Nov 2023'') = ascii ''15 Nov 2023''"
    by (simp add: strip_def ascii_def isspace_def)
  have ne: "ascii ''15 Nov 2023'' \<noteq> []" "ascii ''15 Nov 2023'' \<noteq> ascii ''2023-11-15''"
    by (simp_all add: ascii_def)
  have nm: "\<not> re_match sample_lib date_pattern (strip (ascii ''15 Nov 2023''))"
    unfolding re_match_date_strip unfolding s
    by (simp add: spec_date_shaped_def ascii_def)
  have f: "verify_answer_format CONFIG sample_lib (ascii ''15 Nov 2023'') s' =
      (False, print_err (MsgFormatMismatch date_pattern) s')" for s'
    using nm by (simp add: verify_answer_format_def config_simps)
  have v: "verify_answer_value CONFIG (ascii ''15 Nov 2023'') s' =
      (False, print_err (MsgValueMismatch (ascii ''2023-11-15'') (ascii ''15 Nov 2023'')) s')" for s'
    using ne by (simp add: verify_answer_value_def config_simps s)
  have e: "verify_answer_file_existence CONFIG (Some (ascii ''15 Nov 2023'')) s' =
      (True, print_out (MsgAnswerExists (ascii ''ANSWER.md'')) s')" for s'
    using ne by (simp add: verify_answer_file_existence_def config_simps)
  have "answer_checks CONFIG sample_lib (Some (ascii ''15 Nov 2023'')) io0 =
     (False,
      io0\<lparr>printed :=
        [(Stdout, MsgAnswerExists (ascii ''ANSWER.md'')),
         (Stderr, MsgFormatMismatch date_pattern),
         (Stderr, MsgValueMismatch (ascii ''2023-11-15'') (ascii ''15 Nov 2023''))]\<rparr>)"
    using ne(1) by (simp add: answer_checks_def e f v print_out_def print_err_def io0_simps)
  then show ?thesis by (simp add: f)
qed


subsection \<open>What a run reads\<close>

lemma get_file_content_cong:
  "http_get w' (length (issued s)) = http_get w (length (issued s)) \<Longrightarrow>
   get_file_content cfg lib w' file_path hdrs org ref s =
   get_file_content cfg lib w file_path hdrs org ref s"
  by (simp add: get_file_content_def call_github_api_def Let_def)

lemma get_file_content_issued:
  "issued (snd (get_file_content cfg lib w file_path hdrs org ref s)) =
     issued s @ [api_request cfg (contents_endpoint file_path (branch_of cfg ref)) hdrs org]"
  by (simp add: get_file_content_def call_github_api_eq Let_def print_err_def
      split: http_outcome.splits sum.splits)

lemma get_file_content_fst:
  "length (issued s) = length (issued s') \<Longrightarrow>
   fst (get_file_content cfg lib w file_path hdrs org ref s) =
   fst (get_file_content cfg lib w file_path hdrs org ref s')"
  by (simp add: get_file_content_def call_github_api_eq Let_def
      split: http_outcome.splits sum.splits)

lemma checks_keep_issued:
  "issued (snd (verify_answer_file_existence cfg oc s)) = issued s"
  "issued (snd (verify_answer_format cfg lib c s)) = issued s"
  "issued (snd (verify_answer_value cfg c s)) = issued s"
  "issued (snd (verify_reference_file cfg oc s)) = issued s"
  "issued (snd (verify_required_section cfg c s)) = issued s"
  "issued (snd (verify_required_entries cfg c s)) = issued s"
  by (simp_all add: verify_answer_file_existence_def verify_answer_format_def
      verify_answer_value_def verify_reference_file_def verify_required_section_def
      verify_required_entries_def entries_loop_eq Let_def print_out_def print_err_def)

lemma guarded_keeps_issued:
  assumes "\<And>c s. issued (snd (f c s)) = issued s"
  shows "issued (snd (guarded f content s)) = issued s"
  using assms by (cases content) auto

lemma answer_checks_issued: "issued (snd (answer_checks cfg lib content s)) = issued s"
  by (simp add: answer_checks_def split_beta Let_def guarded_keeps_issued checks_keep_issued)

lemma reference_checks_issued: "issued (snd (reference_checks cfg content s)) = issued s"
  by (simp add: reference_checks_def split_beta Let_def guarded_keeps_issued checks_keep_issued)

lemma prints_keep_issued:
  "issued (print_out m s) = issued s" "issued (print_err m s) = issued s"
  by (simp_all add: print_out_def print_err_def)

lemma verify_files_cong:
  assumes "http_get w' (length (issued s)) = http_get w (length (issued s))"
    and "http_get w' (Suc (length (issued s))) = http_get w (Suc (length (issued s)))"
  shows "verify_files cfg lib w' token org s = verify_files cfg lib w token org s"
proof -
  let ?s2 = "print_out MsgStep2 (print_out (MsgEnvLoaded org (repo_name (REPO_CONFIG cfg))) s)"
  let ?hdrs = "build_headers cfg token"
  have l2: "length (issued ?s2) = length (issued s)" by (simp add: prints_keep_issued)
  have g1: "get_file_content cfg lib w' (answer_path (answer_file (FILES_TO_VERIFY cfg))) ?hdrs org None ?s2 =
      get_file_content cfg lib w (answer_path (answer_file (FILES_TO_VERIFY cfg))) ?hdrs org None ?s2"
    using assms(1) by (intro get_file_content_cong) (simp add: l2)
  have g2: "get_file_content cfg lib w' (reference_path (reference_file (FILES_TO_VERIFY cfg))) ?hdrs org None s5 =
      get_file_content cfg lib w (reference_path (reference_file (FILES_TO_VERIFY cfg))) ?hdrs org None s5"
    if "length (issued s5) = Suc (length (issued s))" for s5
    using assms(2) that by (intro get_file_content_cong) simp
  obtain a s3 where f1: "get_file_content cfg lib w (answer_path (answer_file (FILES_TO_VERIFY cfg))) ?hdrs org None ?s2 = (a, s3)"
    by (cases "get_file_content cfg lib w (answer_path (answer_file (FILES_TO_VERIFY cfg))) ?hdrs org None ?s2")
  have l3: "length (issued s3) = Suc (length (issued s))"
    using get_file_content_issued [of cfg lib w "answer_path (answer_file (FILES_TO_VERIFY cfg))" ?hdrs org None ?s2]
    by (simp add: f1 l2)
  obtain ok s4 where ac: "answer_checks cfg lib a s3 = (ok, s4)"
    by (cases "answer_checks cfg lib a s3")
  have l4: "length (issued s4) = Suc (length (issued s))"
    using answer_checks_issued [of cfg lib a s3] by (simp add: ac l3)
  have l5: "length (issued (print_out MsgStep3 s4)) = Suc (length (issued s))"
    by (simp add: prints_keep_issued l4)
  show ?thesis
    unfolding verify_files_def Let_def g1 f1
    by (simp add: ac g2 [OF l5])
qed

lemma load_environment_cong:
  assumes a: "os_environ w' = os_environ w" and b: "dotenv_values w' = dotenv_values w"
  shows "load_environment cfg w' s = load_environment cfg w s"
  unfolding load_environment_def environ_get_def a b by (rule refl)

lemma load_environment_eq:
  "load_environment cfg w s =
     ((environ_get w (env_file (ENV_CONFIG cfg)) (github_token_var (ENV_CONFIG cfg)),
       environ_get w (env_file (ENV_CONFIG cfg)) (github_org_var (ENV_CONFIG cfg))),
      snd (load_environment cfg w s))"
  by (simp add: load_environment_def Let_def)

lemma load_environment_issued: "issued (snd (load_environment cfg w s)) = issued s"
  by (simp add: load_environment_def Let_def print_err_def)

lemma run_verification_cong:
  assumes "os_environ w' = os_environ w" "dotenv_values w' = dotenv_values w"
    and "http_get w' (length (issued s)) = http_get w (length (issued s))"
    and "http_get w' (Suc (length (issued s))) = http_get w (Suc (length (issued s)))"
  shows "run_verification cfg lib w' s = run_verification cfg lib w s"
proof -
  let ?s3 = "print_out MsgStep1 (print_out MsgRule (print_out MsgBanner s))"
  obtain tok org s4 where le: "load_environment cfg w ?s3 = ((tok, org), s4)"
    by (cases "load_environment cfg w ?s3") auto
  have l4: "length (issued s4) = length (issued s)"
    using load_environment_issued [of cfg w ?s3] by (simp add: le prints_keep_issued)
  have vf: "verify_files cfg lib w' t g s4 = verify_files cfg lib w t g s4" for t g
    using assms(3,4) by (intro verify_files_cong) (simp_all add: l4)
  show ?thesis
    unfolding run_verification_def Let_def load_environment_cong [OF assms(1,2)] le
    by (simp add: vf split: option.splits)
qed

text \<open>
  Claim C8. Verification is deterministic: the result of \<^verbatim>\<open>run_verification\<close> and the
  ordered lines it prints (with the requests it issues) are fixed by the contents of the
  environment and by the answers to the first and the second request of the run. Two
  worlds that agree on these, whatever else differs between them, give the same result
  and the same final state, and so the same exit status.
\<close>

theorem run_is_determined_by_environment_and_two_responses:
  "os_environ w' = os_environ w \<and> dotenv_values w' = dotenv_values w \<longrightarrow>
     (http_get w' (length (issued s)) = http_get w (length (issued s)) \<and>
      http_get w' (Suc (length (issued s))) = http_get w (Suc (length (issued s))) \<longrightarrow>
        run_verification cfg lib w' s = run_verification cfg lib w s) \<and>
     (http_get w' 0 = http_get w 0 \<and> http_get w' 1 = http_get w 1 \<longrightarrow>
        main lib w' = main lib w)"
proof (intro impI conjI)
  assume e: "os_environ w' = os_environ w \<and> dotenv_values w' = dotenv_values w"
  {
    assume "http_get w' (length (issued s)) = http_get w (length (issued s)) \<and>
      http_get w' (Suc (length (issued s))) = http_get w (Suc (length (issued s)))"
    with e show "run_verification cfg lib w' s = run_verification cfg lib w s"
      by (intro run_verification_cong) simp_all
  }
  {
    assume "http_get w' 0 = http_get w 0 \<and> http_get w' 1 = http_get w 1"
    with e have "run_verification CONFIG lib w' io0 = run_verification CONFIG lib w io0"
      by (intro run_verification_cong) (simp_all add: io0_simps)
    then show "main lib w' = main lib w" by (simp add: main_def)
  }
qed

text \<open>
  The theorem on two worlds that differ in how the network answers from the third
  request on.
\<close>

theorem run_is_determined_by_environment_and_two_responses_witness:
  "(let w = mock_world (Some (ascii ''ghp_x'')) (Some (ascii ''eval-org''))
              (file_response (ascii ''MjAyMy0xMS0xNQ=='')) (file_response readme_full_b64);
        w' = w\<lparr>http_get := (\<lambda>k req. if 2 \<le> k then Responds 500 (Inl (ascii ''oops'')) else http_get w k req)\<rparr>
    in http_get w' 2 \<noteq> http_get w 2 \<and>
       run_verification CONFIG sample_lib w' io0 = run_verification CONFIG sample_lib w io0 \<and>
       main sample_lib w' = main sample_lib w)"
proof -
  let ?w = "mock_world (Some (ascii ''ghp_x'')) (Some (ascii ''eval-org''))
              (file_response (ascii ''MjAyMy0xMS0xNQ=='')) (file_response readme_full_b64)"
  let ?w' = "?w\<lparr>http_get := (\<lambda>k req. if 2 \<le> k then Responds 500 (Inl (ascii ''oops'')) else http_get ?w k req)\<rparr>"
  have d: "http_get ?w' 2 \<noteq> http_get ?w 2"
    by (simp add: mock_world_def fun_eq_iff)
  have h: "os_environ ?w' = os_environ ?w \<and> dotenv_values ?w' = dotenv_values ?w" by simp
  have r: "http_get ?w' 0 = http_get ?w 0 \<and> http_get ?w' 1 = http_get ?w 1"
    by (simp add: fun_eq_iff)
  have r': "http_get ?w' (length (issued io0)) = http_get ?w (length (issued io0)) \<and>
      http_get ?w' (Suc (length (issued io0))) = http_get ?w (Suc (length (issued io0)))"
    by (simp add: fun_eq_iff io0_simps)
  note t = run_is_determined_by_environment_and_two_responses [where w = ?w and w' = ?w' and
      lib = sample_lib and cfg = CONFIG and s = io0, THEN mp, OF h]
  have a: "run_verification CONFIG sample_lib ?w' io0 = run_verification CONFIG sample_lib ?w io0"
    by (rule t [THEN conjunct1, THEN mp, OF r'])
  have b: "main sample_lib ?w' = main sample_lib ?w"
    by (rule t [THEN conjunct2, THEN mp, OF r])
  show ?thesis unfolding Let_def using d a b by blast
qed

subsection \<open>The result of a run\<close>

lemma reference_checks_fst:
  "fst (reference_checks cfg content s) =
     (fst (verify_reference_file cfg content s) \<and>
      fst (guarded (verify_required_section cfg) content s) \<and>
      fst (guarded (verify_required_entries cfg) content s))"
proof -
  obtain r1 s1 where a: "verify_reference_file cfg content s = (r1, s1)"
    by (cases "verify_reference_file cfg content s")
  obtain r2 s2 where b: "guarded (verify_required_section cfg) content s1 = (r2, s2)"
    by (cases "guarded (verify_required_section cfg) content s1")
  obtain r3 s3 where c: "guarded (verify_required_entries cfg) content s2 = (r3, s3)"
    by (cases "guarded (verify_required_entries cfg) content s2")
  have "fst (guarded (verify_required_section cfg) content s) = r2"
    using fst_guarded [of "verify_required_section cfg" s s1 content] b
    by (simp add: check_results_do_not_depend_on_output(5) [of cfg _ s s1])
  moreover have "fst (guarded (verify_required_entries cfg) content s) = r3"
    using fst_guarded [of "verify_required_entries cfg" s s2 content] c
    by (simp add: check_results_do_not_depend_on_output(6) [of cfg _ s s2])
  ultimately show ?thesis by (simp add: reference_checks_def a b c)
qed

lemma step_results_do_not_depend_on_output:
  "fst (answer_checks cfg lib content s) = fst (answer_checks cfg lib content s')"
  "fst (reference_checks cfg content s) = fst (reference_checks cfg content s')"
proof -
  note c = check_results_do_not_depend_on_output [where s = s and s' = s' and cfg = cfg]
  show "fst (answer_checks cfg lib content s) = fst (answer_checks cfg lib content s')"
    unfolding answer_checks_fst
    using c(1) [of content] fst_guarded [of "verify_answer_format cfg lib" s s' content, OF c(2)]
      fst_guarded [of "verify_answer_value cfg" s s' content, OF c(3)]
    by simp
  show "fst (reference_checks cfg content s) = fst (reference_checks cfg content s')"
    unfolding reference_checks_fst
    using c(4) [of content] fst_guarded [of "verify_required_section cfg" s s' content, OF c(5)]
      fst_guarded [of "verify_required_entries cfg" s s' content, OF c(6)]
    by simp
qed

lemma load_environment_fst:
  "fst (load_environment cfg w s) =
     (environ_get w (env_file (ENV_CONFIG cfg)) (github_token_var (ENV_CONFIG cfg)),
      environ_get w (env_file (ENV_CONFIG cfg)) (github_org_var (ENV_CONFIG cfg)))"
  by (simp add: load_environment_def Let_def)

lemma verify_files_fst:
  "fst (verify_files cfg lib w token org s) =
     (let hdrs = build_headers cfg token;
          fetch1 = get_file_content cfg lib w (answer_path (answer_file (FILES_TO_VERIFY cfg)))
                     hdrs org None s;
          fetch2 = get_file_content cfg lib w (reference_path (reference_file (FILES_TO_VERIFY cfg)))
                     hdrs org None (snd fetch1)
      in fst (answer_checks cfg lib (fst fetch1) s) \<and>
         fst (reference_checks cfg (fst fetch2) s))"
proof -
  let ?s2 = "print_out MsgStep2 (print_out (MsgEnvLoaded org (repo_name (REPO_CONFIG cfg))) s)"
  let ?hdrs = "build_headers cfg token"
  let ?ap = "answer_path (answer_file (FILES_TO_VERIFY cfg))"
  let ?rp = "reference_path (reference_file (FILES_TO_VERIFY cfg))"
  have l2: "length (issued ?s2) = length (issued s)" by (simp add: prints_keep_issued)
  obtain a s3 where f1: "get_file_content cfg lib w ?ap ?hdrs org None ?s2 = (a, s3)"
    by (cases "get_file_content cfg lib w ?ap ?hdrs org None ?s2")
  have a: "fst (get_file_content cfg lib w ?ap ?hdrs org None s) = a"
    using get_file_content_fst [of s ?s2 cfg lib w ?ap ?hdrs org None] by (simp add: l2 f1)
  have l3: "length (issued s3) = Suc (length (issued s))"
    using get_file_content_issued [of cfg lib w ?ap ?hdrs org None ?s2] by (simp add: f1 l2)
  have l3': "length (issued (snd (get_file_content cfg lib w ?ap ?hdrs org None s))) = Suc (length (issued s))"
    by (simp add: get_file_content_issued)
  obtain ok s4 where ac: "answer_checks cfg lib a s3 = (ok, s4)"
    by (cases "answer_checks cfg lib a s3")
  have ok: "fst (answer_checks cfg lib a s) = ok"
    using step_results_do_not_depend_on_output(1) [of cfg lib a s s3] by (simp add: ac)
  have l5: "length (issued (print_out MsgStep3 s4)) = Suc (length (issued s))"
    using answer_checks_issued [of cfg lib a s3] by (simp add: ac l3 prints_keep_issued)
  obtain r s6 where f2: "get_file_content cfg lib w ?rp ?hdrs org None (print_out MsgStep3 s4) = (r, s6)"
    by (cases "get_file_content cfg lib w ?rp ?hdrs org None (print_out MsgStep3 s4)")
  have r: "fst (get_file_content cfg lib w ?rp ?hdrs org None
              (snd (get_file_content cfg lib w ?ap ?hdrs org None s))) = r"
    using get_file_content_fst [of "snd (get_file_content cfg lib w ?ap ?hdrs org None s)"
        "print_out MsgStep3 s4" cfg lib w ?rp ?hdrs org None]
    by (simp add: l3' l5 f2)
  obtain ok' s7 where rc: "reference_checks cfg r s6 = (ok', s7)"
    by (cases "reference_checks cfg r s6")
  have ok': "fst (reference_checks cfg r s) = ok'"
    using step_results_do_not_depend_on_output(2) [of cfg r s s6] by (simp add: rc)
  show ?thesis
    unfolding verify_files_def Let_def f1 a r ok ok'
    by (simp add: ac f2 rc)
qed

lemma guarded_present: "c \<noteq> [] \<Longrightarrow> guarded f (Some c) s = f c s"
  by simp

lemma answer_step_passes:
  "fst (answer_checks CONFIG lib content s) =
     (\<exists>answer. content = Some answer \<and>
        fst (verify_answer_file_existence CONFIG (Some answer) s) \<and>
        fst (verify_answer_format CONFIG lib answer s) \<and>
        fst (verify_answer_value CONFIG answer s))"
proof (cases content)
  case None
  then show ?thesis by (simp add: answer_checks_fst)
next
  case (Some c)
  show ?thesis
  proof (cases "c = []")
    case True
    with Some show ?thesis
      by (simp add: answer_checks_fst verify_answer_file_existence_def config_simps)
  next
    case False
    with Some show ?thesis by (simp add: answer_checks_fst)
  qed
qed

lemma reference_step_passes:
  "fst (reference_checks CONFIG content s) =
     (\<exists>reference. content = Some reference \<and>
        fst (verify_reference_file CONFIG (Some reference) s) \<and>
        fst (verify_required_section CONFIG reference s) \<and>
        fst (verify_required_entries CONFIG reference s))"
proof (cases content)
  case None
  then show ?thesis by (simp add: reference_checks_fst)
next
  case (Some c)
  show ?thesis
  proof (cases "c = []")
    case True
    with Some show ?thesis
      by (simp add: reference_checks_fst verify_reference_file_def config_simps)
  next
    case False
    with Some show ?thesis by (simp add: reference_checks_fst)
  qed
qed

lemma run_verification_fst:
  "fst (run_verification cfg lib w s) =
     (\<exists>token org. fst (load_environment cfg w s) = (Some token, Some org) \<and>
        token \<noteq> [] \<and> org \<noteq> [] \<and>
        fst (verify_files cfg lib w token org
               (snd (load_environment cfg w
                  (print_out MsgStep1 (print_out MsgRule (print_out MsgBanner s)))))))"
proof -
  let ?s3 = "print_out MsgStep1 (print_out MsgRule (print_out MsgBanner s))"
  obtain tok org s4 where le: "load_environment cfg w ?s3 = ((tok, org), s4)"
    by (cases "load_environment cfg w ?s3") auto
  have f: "fst (load_environment cfg w s) = (tok, org)"
    using le load_environment_fst [of cfg w ?s3] load_environment_fst [of cfg w s] by simp
  show ?thesis
    unfolding run_verification_def Let_def le f
    by (cases tok; cases org) auto
qed

lemma get_file_content_ok:
  assumes "http_get w (length (issued s))
             (api_request cfg (contents_endpoint file_path (branch_of cfg ref)) hdrs org) =
           Responds 200 (Inr (JObject kvs))"
    and "map_of kvs (ascii ''content'') = Some (JString b64)"
    and "b64decode_decode lib (answer_encoding (answer_file (FILES_TO_VERIFY cfg)))
           (filter (\<lambda>c. c \<noteq> 10) b64) = Inr t"
  shows "get_file_content cfg lib w file_path hdrs org ref s =
     (Some t,
      s\<lparr>issued := issued s @
          [api_request cfg (contents_endpoint file_path (branch_of cfg ref)) hdrs org]\<rparr>)"
proof -
  have "kvs \<noteq> []" using assms(2) by auto
  then show ?thesis
    using assms
    by (simp add: get_file_content_def call_github_api_eq Let_def decode_content_def
        dict_get_def remove_newlines_def)
qed

lemma sample_decode:
  "b64decode_decode sample_lib (answer_encoding (answer_file (FILES_TO_VERIFY CONFIG)))
     (filter (\<lambda>c. c \<noteq> 10) (ascii ''MjAyMy0xMS0xNQ=='' @ [10])) = Inr (ascii ''2023-11-15'')"
  "b64decode_decode sample_lib (answer_encoding (answer_file (FILES_TO_VERIFY CONFIG)))
     (filter (\<lambda>c. c \<noteq> 10) (ascii ''MjAyMy0xMS0xNg=='')) = Inr (ascii ''2023-11-16'')"
  "b64decode_decode sample_lib (answer_encoding (answer_file (FILES_TO_VERIFY CONFIG)))
     (filter (\<lambda>c. c \<noteq> 10) readme_full_b64) = Inr readme_full"
  unfolding config_simps sample_lib_simps
  by (simp_all add: sample_decodings_def readme_full_b64_def readme_short_b64_def ascii_def
      is_base64_char_def)

lemma file_response_content:
  "file_response b64 =
     Responds 200 (Inr (JObject [(ascii ''encoding'', JString (ascii ''base64'')),
                                 (ascii ''content'', JString b64)]))"
  "map_of [(ascii ''encoding'', JString (ascii ''base64'')), (ascii ''content'', JString b64)]
     (ascii ''content'') = Some (JString b64)"
  by (simp_all add: file_response_def ascii_def)

text \<open>
  Claim C1. \<^verbatim>\<open>run_verification\<close> returns true exactly when loading the environment
  gives a token and an organisation, both not empty; the fetch of \<^verbatim>\<open>ANSWER.md\<close> gives
  a content on which the existence, format and value checks pass; and the fetch of
  \<^verbatim>\<open>README.md\<close>, the second request of the run, gives a content on which the
  existence, section and entries checks pass. The exit status of the script is 0 when
  \<^verbatim>\<open>run_verification\<close> returns true and 1 when it returns false.
\<close>

theorem run_verification_result:
  "fst (run_verification CONFIG lib w io0) =
     (\<exists>token org answer reference.
        fst (load_environment CONFIG w io0) = (Some token, Some org) \<and>
        token \<noteq> [] \<and> org \<noteq> [] \<and>
        (let hdrs = build_headers CONFIG token;
             fetch1 = get_file_content CONFIG lib w (ascii ''ANSWER.md'') hdrs org None io0;
             fetch2 = get_file_content CONFIG lib w (ascii ''README.md'') hdrs org None (snd fetch1)
         in fst fetch1 = Some answer \<and>
            fst (verify_answer_file_existence CONFIG (Some answer) io0) \<and>
            fst (verify_answer_format CONFIG lib answer io0) \<and>
            fst (verify_answer_value CONFIG answer io0) \<and>
            fst fetch2 = Some reference \<and>
            fst (verify_reference_file CONFIG (Some reference) io0) \<and>
            fst (verify_required_section CONFIG reference io0) \<and>
            fst (verify_required_entries CONFIG reference io0))) \<and>
   fst (main lib w) = (if fst (run_verification CONFIG lib w io0) then 0 else 1)"
proof -
  let ?s4 = "snd (load_environment CONFIG w
                  (print_out MsgStep1 (print_out MsgRule (print_out MsgBanner io0))))"
  have l4: "length (issued ?s4) = length (issued io0)"
    by (simp add: load_environment_issued prints_keep_issued)
  have vf: "fst (verify_files CONFIG lib w token org ?s4) =
      (\<exists>answer reference.
        (let hdrs = build_headers CONFIG token;
             fetch1 = get_file_content CONFIG lib w (ascii ''ANSWER.md'') hdrs org None io0;
             fetch2 = get_file_content CONFIG lib w (ascii ''README.md'') hdrs org None (snd fetch1)
         in fst fetch1 = Some answer \<and>
            fst (verify_answer_file_existence CONFIG (Some answer) io0) \<and>
            fst (verify_answer_format CONFIG lib answer io0) \<and>
            fst (verify_answer_value CONFIG answer io0) \<and>
            fst fetch2 = Some reference \<and>
            fst (verify_reference_file CONFIG (Some reference) io0) \<and>
            fst (verify_required_section CONFIG reference io0) \<and>
            fst (verify_required_entries CONFIG reference io0)))" for token org
  proof -
    let ?hdrs = "build_headers CONFIG token"
    let ?f1 = "get_file_content CONFIG lib w (ascii ''ANSWER.md'') ?hdrs org None"
    let ?f2 = "get_file_content CONFIG lib w (ascii ''README.md'') ?hdrs org None"
    have a: "fst (?f1 ?s4) = fst (?f1 io0)"
      by (rule get_file_content_fst) (rule l4)
    have b: "fst (?f2 (snd (?f1 ?s4))) = fst (?f2 (snd (?f1 io0)))"
      by (rule get_file_content_fst) (simp add: get_file_content_issued l4)
    have ac: "fst (answer_checks CONFIG lib c ?s4) =
        (\<exists>answer. c = Some answer \<and>
          fst (verify_answer_file_existence CONFIG (Some answer) io0) \<and>
          fst (verify_answer_format CONFIG lib answer io0) \<and>
          fst (verify_answer_value CONFIG answer io0))" for c
      using step_results_do_not_depend_on_output(1) [of CONFIG lib c ?s4 io0]
      by (simp add: answer_step_passes)
    have rc: "fst (reference_checks CONFIG c ?s4) =
        (\<exists>reference. c = Some reference \<and>
          fst (verify_reference_file CONFIG (Some reference) io0) \<and>
          fst (verify_required_section CONFIG reference io0) \<and>
          fst (verify_required_entries CONFIG reference io0))" for c
      using step_results_do_not_depend_on_output(2) [of CONFIG c ?s4 io0]
      by (simp add: reference_step_passes)
    have "fst (verify_files CONFIG lib w token org ?s4) =
        (fst (answer_checks CONFIG lib (fst (?f1 io0)) ?s4) \<and>
         fst (reference_checks CONFIG (fst (?f2 (snd (?f1 io0)))) ?s4))"
      unfolding verify_files_fst Let_def config_simps a b by (rule refl)
    then show ?thesis unfolding ac rc Let_def by blast
  qed
  have "fst (main lib w) = (if fst (run_verification CONFIG lib w io0) then 0 else 1)"
    by (simp add: main_def split_beta)
  moreover have "fst (run_verification CONFIG lib w io0) =
     (\<exists>token org answer reference.
        fst (load_environment CONFIG w io0) = (Some token, Some org) \<and>
        token \<noteq> [] \<and> org \<noteq> [] \<and>
        (let hdrs = build_headers CONFIG token;
             fetch1 = get_file_content CONFIG lib w (ascii ''ANSWER.md'') hdrs org None io0;
             fetch2 = get_file_content CONFIG lib w (ascii ''README.md'') hdrs org None (snd fetch1)
         in fst fetch1 = Some answer \<and>
            fst (verify_answer_file_existence CONFIG (Some answer) io0) \<and>
            fst (verify_answer_format CONFIG lib answer io0) \<and>
            fst (verify_answer_value CONFIG answer io0) \<and>
            fst fetch2 = Some reference \<and>
            fst (verify_reference_file CONFIG (Some reference) io0) \<and>
            fst (verify_required_section CONFIG reference io0) \<and>
            fst (verify_required_entries CONFIG reference io0)))"
    unfolding run_verification_fst vf by blast
  ultimately show ?thesis by blast
qed


text \<open>
  The theorem on two runs with both credentials and the complete README: one whose
  answer file holds \<^verbatim>\<open>2023-11-15\<close>, which succeeds with exit status 0, and one whose
  answer file holds \<^verbatim>\<open>2023-11-16\<close>, which fails with exit status 1.
\<close>

theorem run_verification_result_witness:
  "(let w = mock_world (Some (ascii ''ghp_x'')) (Some (ascii ''eval-org''))
              (file_response (ascii ''MjAyMy0xMS0xNQ=='' @ [10])) (file_response readme_full_b64)
    in fst (run_verification CONFIG sample_lib w io0) \<and> fst (main sample_lib w) = 0) \<and>
   (let w = mock_world (Some (ascii ''ghp_x'')) (Some (ascii ''eval-org''))
              (file_response (ascii ''MjAyMy0xMS0xNg=='')) (file_response readme_full_b64)
    in \<not> fst (run_verification CONFIG sample_lib w io0) \<and> fst (main sample_lib w) = 1)"
proof -
  let ?good = "mock_world (Some (ascii ''ghp_x'')) (Some (ascii ''eval-org''))
              (file_response (ascii ''MjAyMy0xMS0xNQ=='' @ [10])) (file_response readme_full_b64)"
  let ?bad = "mock_world (Some (ascii ''ghp_x'')) (Some (ascii ''eval-org''))
              (file_response (ascii ''MjAyMy0xMS0xNg=='')) (file_response readme_full_b64)"
  have ne: "ascii ''ghp_x'' \<noteq> []" "ascii ''eval-org'' \<noteq> []" "ascii ''2023-11-15'' \<noteq> []"
    "ascii ''2023-11-16'' \<noteq> ascii ''2023-11-15''"
    by (simp_all add: ascii_def)
  have env: "fst (load_environment CONFIG (mock_world (Some (ascii ''ghp_x'')) (Some (ascii ''eval-org'')) a b) io0) =
      (Some (ascii ''ghp_x''), Some (ascii ''eval-org''))" for a b
    by (simp add: load_environment_fst config_simps environ_get_mock)
  have g1: "get_file_content CONFIG sample_lib ?good (ascii ''ANSWER.md'') hdrs org None io0 =
      (Some (ascii ''2023-11-15''),
       io0\<lparr>issued := issued io0 @
          [api_request CONFIG (contents_endpoint (ascii ''ANSWER.md'') (branch_of CONFIG None)) hdrs org]\<rparr>)"
    for hdrs org
    by (rule get_file_content_ok [OF _ file_response_content(2) sample_decode(1)])
      (simp add: io0_simps mock_world_simps file_response_content(1))
  have g2: "fst (get_file_content CONFIG sample_lib ?good (ascii ''README.md'') hdrs org None
        (io0\<lparr>issued := issued io0 @ [r]\<rparr>)) = Some readme_full" for hdrs org r
    by (subst get_file_content_ok [OF _ file_response_content(2) sample_decode(3)])
      (simp_all add: io0_simps mock_world_simps file_response_content(1))
  have b1: "get_file_content CONFIG sample_lib ?bad (ascii ''ANSWER.md'') hdrs org None io0 =
      (Some (ascii ''2023-11-16''),
       io0\<lparr>issued := issued io0 @
          [api_request CONFIG (contents_endpoint (ascii ''ANSWER.md'') (branch_of CONFIG None)) hdrs org]\<rparr>)"
    for hdrs org
    by (rule get_file_content_ok [OF _ file_response_content(2) sample_decode(2)])
      (simp add: io0_simps mock_world_simps file_response_content(1))
  have m: "re_match sample_lib date_pattern (strip (ascii ''2023-11-15''))"
    unfolding re_match_date_strip unfolding strip_date15
    by (simp add: spec_date_shaped_def ascii_def isdecimal_def)
  have fmt: "fst (verify_answer_format CONFIG sample_lib (ascii ''2023-11-15'') io0)"
    using m by (simp add: verify_answer_format_def config_simps)
  have val: "fst (verify_answer_value CONFIG (ascii ''2023-11-15'') io0)"
    by (simp add: verify_answer_value_def config_simps strip_date15)
  have val16: "\<not> fst (verify_answer_value CONFIG (ascii ''2023-11-16'') io0)"
    using ne by (simp add: verify_answer_value_def config_simps strip_date16)
  have ex: "fst (verify_answer_file_existence CONFIG (Some (ascii ''2023-11-15'')) io0)"
    by (simp add: verify_answer_file_existence_def config_simps ne)
  have rf: "fst (verify_reference_file CONFIG (Some readme_full) io0)"
    by (simp add: verify_reference_file_def config_simps readme_full_facts)
  have sec: "fst (verify_required_section CONFIG readme_full io0)"
    by (simp add: verify_required_section_def config_simps readme_full_facts)
  have ent: "fst (verify_required_entries CONFIG readme_full io0)"
    by (simp add: verify_required_entries_def config_simps entries_loop_eq readme_full_facts)
  note good = run_verification_result [of sample_lib ?good]
  note bad = run_verification_result [of sample_lib ?bad]
  have "fst (run_verification CONFIG sample_lib ?good io0)"
    unfolding good [THEN conjunct1] Let_def
    apply (rule exI [of _ "ascii ''ghp_x''"])
    apply (rule exI [of _ "ascii ''eval-org''"])
    apply (rule exI [of _ "ascii ''2023-11-15''"])
    apply (rule exI [of _ readme_full])
    apply (simp add: env ne g1 g2 fmt val ex rf sec ent)
    done
  moreover have "\<not> fst (run_verification CONFIG sample_lib ?bad io0)"
    unfolding bad [THEN conjunct1] Let_def
    using val16 by (auto simp add: b1)
  ultimately show ?thesis
    unfolding Let_def using good [THEN conjunct2] bad [THEN conjunct2] by simp
qed

end
